theory Spec2Isabelle
  imports Complex_Main "HOL-Library.Multiset"
begin

section \<open>The AMQP client of cloudify/amqp\_client.py\<close>

text \<open>
  A shallow embedding of the connection actor (class \<open>AMQPConnection\<close>), the task
  consumer and the request/response handlers. Every method takes the object it works on
  and returns it updated. What the other threads, the broker, the clock and the random
  number generator do is an explicit argument of the method that depends on it.
\<close>

subsection \<open>Exceptions and results\<close>

text \<open>
  The exceptions the module raises or lets through. In pika \<open>ConnectionClosed\<close> is a
  subclass of \<open>AMQPConnectionError\<close>; \<open>BaseException_only\<close> stands for an exception
  that is not an \<open>Exception\<close> (the source names \<open>DaemonNotFoundError\<close>).
  \<open>Queue_Empty\<close> is \<open>Queue.Empty\<close>, the error of a \<open>Queue.get\<close> whose timeout
  expired.
\<close>

datatype exc =
    AMQPConnectionError string
  | ConnectionClosed
  | ChannelClosed string
  | RuntimeError string
  | Queue_Empty
  | ValueError string
  | TypeError string
  | KeyError string
  | IOError string
  | AttributeError string
  | OtherException string
  | BaseException_only string

fun is_AMQPConnectionError :: "exc \<Rightarrow> bool" where
  "is_AMQPConnectionError (AMQPConnectionError _) = True"
| "is_AMQPConnectionError ConnectionClosed = True"
| "is_AMQPConnectionError _ = False"

fun is_Exception :: "exc \<Rightarrow> bool" where
  "is_Exception (BaseException_only _) = False"
| "is_Exception _ = True"

text \<open>
  A call returns a value, raises, or never returns (\<open>Blocked\<close>: a wait without timeout
  on something that is never delivered).
\<close>

datatype 'a result = Returned 'a | Raised exc | Blocked

subsection \<open>Envelopes and the connection object\<close>

datatype pyval =
    PNone
  | PBool bool
  | PInt int
  | PStr string
  | BasicProperties "string option" "string option" "string option"
    \<comment> \<open>\<open>reply_to\<close>, \<open>correlation_id\<close>, \<open>expiration\<close>\<close>
  | PChannel nat
    \<comment> \<open>a pika channel object\<close>

text \<open>Python's truth value: what \<open>x or y\<close> and \<open>if x\<close> test.\<close>

fun truthy :: "pyval \<Rightarrow> bool" where
  "truthy PNone = False"
| "truthy (PBool b) = b"
| "truthy (PInt i) = (i \<noteq> 0)"
| "truthy (PStr s) = (s \<noteq> [])"
| "truthy (BasicProperties _ _ _) = True"
| "truthy (PChannel _) = True"

text \<open>Keyword arguments: a dict from names to values.\<close>

type_synonym kwargs = "string \<rightharpoonup> pyval"

text \<open>
  The dict built by \<open>channel_method\<close>; \<open>method_name\<close> is its key \<open>method\<close>.
  \<open>err_queue\<close> is a reference to a
  \<open>Queue.Queue\<close> object (its index in \<open>err_queues\<close> below) or \<open>None\<close>;
  \<open>channel\<close> is whatever the caller passed, a channel object or \<open>None\<close> as a rule.
\<close>

record envelope =
  method_name :: string
  message :: kwargs
  err_queue :: "nat option"
  channel :: pyval

datatype raw_host = HostStr string | HostList "string list"

text \<open>
  The generator object of \<open>_get_connection_params\<close>: not yet started (its body runs at
  the first \<open>next\<close>), or suspended at the \<open>yield\<close> inside the \<open>for\<close> loop, with the
  list \<open>hosts\<close> and the hosts the \<open>for\<close> loop has still to visit.
\<close>

datatype params_gen = Unstarted | Suspended "string list" "string list"

text \<open>
  The attributes of an \<open>AMQPConnection\<close>. The last three fields are not attributes:
  \<open>err_queues\<close> is the store of the \<open>Queue.Queue\<close> objects made by
  \<open>channel_method\<close> (each the list of the items put into it, oldest first),
  \<open>slept\<close> the arguments of the calls of \<open>time.sleep\<close> so far, and \<open>amqp_raw_host\<close>
  is \<open>self._amqp_params.raw_host\<close>.
\<close>

record connection =
  reconnect_backoff :: int
  closed :: bool
  pika_connection :: "nat option"
  consumer_thread :: "nat option"
  connect_wait :: bool
  connect_timeout :: "rat option"
  error :: "exc option"
  connection_params :: params_gen
  connection_tasks_queue :: "envelope list"
  amqp_raw_host :: raw_host
  err_queues :: "exc option list list"
  slept :: "int list"

definition MAX_BACKOFF :: int where
  "MAX_BACKOFF = 30"

text \<open>\<open>AMQPConnection.__init__\<close>\<close>

definition init :: "raw_host \<Rightarrow> rat option \<Rightarrow> connection" where
  "init host timeout =
     \<lparr> reconnect_backoff = 1,
       closed = False,
       pika_connection = None,
       consumer_thread = None,
       connect_wait = False,
       connect_timeout = timeout,
       error = None,
       connection_params = Unstarted,
       connection_tasks_queue = [],
       amqp_raw_host = host,
       err_queues = [],
       slept = [] \<rparr>"

subsection \<open>Backoff and connect attempts\<close>

text \<open>
  \<^verbatim>\<open>
  def _get_reconnect_backoff(self):
      backoff = self._reconnect_backoff
      self._reconnect_backoff = min(backoff * 2, self.MAX_BACKOFF)
      return backoff
  \<close>
\<close>

definition get_reconnect_backoff :: "connection \<Rightarrow> int \<times> connection" where
  "get_reconnect_backoff s =
     (let backoff = reconnect_backoff s
      in (backoff, s\<lparr>reconnect_backoff := min (backoff * 2) MAX_BACKOFF\<rparr>))"

definition reset_reconnect_backoff :: "connection \<Rightarrow> connection" where
  "reset_reconnect_backoff s = s\<lparr>reconnect_backoff := 1\<rparr>"

text \<open>
  \<open>time.sleep\<close>: a negative argument raises \<open>IOError\<close> (Python 2), anything else is
  recorded in \<open>slept\<close>.
\<close>

definition time_sleep :: "int \<Rightarrow> connection \<Rightarrow> unit result \<times> connection" where
  "time_sleep secs s =
     (if secs < 0 then (Raised (IOError ''[Errno 22] Invalid argument''), s)
      else (Returned (), s\<lparr>slept := slept s @ [secs]\<rparr>))"

text \<open>
  \<^verbatim>\<open>
  def _get_pika_connection(self, params, deadline=None):
      try:
          connection = pika.BlockingConnection(params)
      except pika.exceptions.AMQPConnectionError as e:
          time.sleep(self._get_reconnect_backoff())
          if deadline and time.time() > deadline:
              raise e
      else:
          self._reset_reconnect_backoff()
          self._closed = False
          return connection
  \<close>
  \<open>dial host\<close> is what \<open>pika.BlockingConnection\<close> does for these parameters at this
  moment (\<open>Inl e\<close>: it raises \<open>e\<close>; \<open>Inr c\<close>: it returns the connection \<open>c\<close>) and
  \<open>clock\<close> is what \<open>time.time()\<close> returns after the sleep. The method returns
  \<open>None\<close> after a failed attempt that is not past the deadline.
\<close>

definition get_pika_connection ::
  "(string \<Rightarrow> exc + nat) \<Rightarrow> rat \<Rightarrow> string \<Rightarrow> rat option \<Rightarrow> connection
     \<Rightarrow> nat option result \<times> connection" where
  "get_pika_connection dial clock params deadline s =
     (case dial params of
        Inr conn \<Rightarrow> (Returned (Some conn), (reset_reconnect_backoff s)\<lparr>closed := False\<rparr>)
      | Inl e \<Rightarrow>
          if is_AMQPConnectionError e then
            (let (backoff, s1) = get_reconnect_backoff s
             in case time_sleep backoff s1 of
                  (Raised e', s2) \<Rightarrow> (Raised e', s2)
                | (Blocked, s2) \<Rightarrow> (Blocked, s2)
                | (Returned _, s2) \<Rightarrow>
                    (case deadline of
                       None \<Rightarrow> (Returned None, s2)
                     | Some d \<Rightarrow>
                         if d \<noteq> 0 \<and> clock > d then (Raised e, s2)
                         else (Returned None, s2)))
          else (Raised e, s))"

text \<open>
  \<^verbatim>\<open>
  def close(self, wait=True):
      self._closed = True
      if self._consumer_thread and wait:
          self._consumer_thread.join()
          self._consumer_thread = None
  \<close>
  \<open>cur\<close> is \<open>threading.current_thread()\<close>: \<open>Thread.join\<close> raises a
  \<open>RuntimeError\<close> when the caller is the thread to join. Otherwise \<open>join\<close> is what
  the consumer thread does to the connection from the moment the flag is set until the
  thread ends, \<open>None\<close> when it never ends (then \<open>close\<close> does not return).
\<close>

definition close ::
  "nat \<Rightarrow> (connection \<Rightarrow> connection option) \<Rightarrow> bool \<Rightarrow> connection
     \<Rightarrow> unit result \<times> connection" where
  "close cur join wait s =
     (let s1 = s\<lparr>closed := True\<rparr>
      in if consumer_thread s1 \<noteq> None \<and> wait then
           (if consumer_thread s1 = Some cur
            then (Raised (RuntimeError ''cannot join current thread''), s1)
            else case join s1 of
                   None \<Rightarrow> (Blocked, s1)
                 | Some s2 \<Rightarrow> (Returned (), s2\<lparr>consumer_thread := None\<rparr>))
         else (Returned (), s1))"

subsection \<open>The connection-parameter iterator\<close>

text \<open>
  \<^verbatim>\<open>
  def _get_connection_params(self):
      params = self._amqp_params.as_pika_params()
      hosts = copy.copy(self._amqp_params.raw_host)
      if isinstance(hosts, basestring):
          hosts = [hosts]
      else:
          random.shuffle(hosts)
      while True:
          for host in hosts:
              params.host = host
              logger.debug('Current connection params: {0}'.format(params))
              yield params
  \<close>
  \<open>resume hosts rest\<close> runs the generator from the point where the \<open>for\<close> loop has
  \<open>rest\<close> left, up to the next \<open>yield\<close>: it gives the host yielded and what the
  \<open>for\<close> loop has left then. With an empty \<open>hosts\<close> the \<open>while\<close> loop never reaches
  a \<open>yield\<close>, and the value is \<open>None\<close>.
\<close>

partial_function (option) resume :: "string list \<Rightarrow> string list \<Rightarrow> (string \<times> string list) option" where
  "resume hosts rest = (case rest of host # rest' \<Rightarrow> Some (host, rest') | [] \<Rightarrow> resume hosts hosts)"

text \<open>
  \<open>next(self._connection_params)\<close>. \<open>shuffle\<close> is the permutation that
  \<open>random.shuffle\<close> applies; the first \<open>next\<close> runs the generator's body from its start.
\<close>

definition next_params ::
  "(string list \<Rightarrow> string list) \<Rightarrow> connection \<Rightarrow> (string \<times> connection) option" where
  "next_params shuffle s =
     (case connection_params s of
        Unstarted \<Rightarrow>
          (let hosts = (case amqp_raw_host s of HostStr h \<Rightarrow> [h] | HostList hs \<Rightarrow> shuffle hs)
           in case resume hosts hosts of
                None \<Rightarrow> None
              | Some (host, rest) \<Rightarrow> Some (host, s\<lparr>connection_params := Suspended hosts rest\<rparr>))
      | Suspended hosts rest \<Rightarrow>
          (case resume hosts rest of
             None \<Rightarrow> None
           | Some (host, rest') \<Rightarrow> Some (host, s\<lparr>connection_params := Suspended hosts rest'\<rparr>)))"

text \<open>The hosts of the first \<open>n\<close> calls of \<open>next\<close>, in order.\<close>

fun nexts :: "(string list \<Rightarrow> string list) \<Rightarrow> nat \<Rightarrow> connection \<Rightarrow> (string list \<times> connection) option" where
  "nexts shuffle 0 s = Some ([], s)"
| "nexts shuffle (Suc n) s =
     (case next_params shuffle s of
        None \<Rightarrow> None
      | Some (host, s1) \<Rightarrow>
          (case nexts shuffle n s1 of
             None \<Rightarrow> None
           | Some (hosts, s2) \<Rightarrow> Some (host # hosts, s2)))"

subsection \<open>Submitting channel methods\<close>

text \<open>
  \<open>Queue.Queue.put\<close> on a queue of the store. A reference outside the store cannot come
  out of \<open>channel_method\<close>; the store is then left as it is.
\<close>

definition err_queue_put :: "nat option \<Rightarrow> exc option \<Rightarrow> connection \<Rightarrow> connection" where
  "err_queue_put q item s =
     (case q of
        None \<Rightarrow> s
      | Some i \<Rightarrow> s\<lparr>err_queues := (err_queues s)[i := err_queues s ! i @ [item]]\<rparr>)"

text \<open>
  \<open>Queue.Queue.get(timeout=timeout)\<close> of Python 2: a negative timeout raises
  \<open>ValueError\<close> at once; otherwise the caller waits. \<open>others\<close> is what the other
  threads do to the connection from the start of the wait until an item is there or the
  timeout expires. An item is then taken from the front; with no item, a timeout raises
  \<open>Queue.Empty\<close>, and without timeout the call never returns. \<open>reply_items q s\<close>
  are the items of the queue \<open>q\<close>.
\<close>

definition reply_items :: "nat \<Rightarrow> connection \<Rightarrow> exc option list" where
  "reply_items q s = (if q < length (err_queues s) then err_queues s ! q else [])"

definition err_queue_get ::
  "(connection \<Rightarrow> connection) \<Rightarrow> nat \<Rightarrow> rat option \<Rightarrow> connection
     \<Rightarrow> exc option result \<times> connection" where
  "err_queue_get others q timeout s =
     (if (case timeout of None \<Rightarrow> False | Some t \<Rightarrow> t < 0)
      then (Raised (ValueError ''timeout must be a non-negative number''), s)
      else
        (let s1 = others s
         in case reply_items q s1 of
              [] \<Rightarrow> (if timeout = None then Blocked else Raised Queue_Empty, s1)
            | item # items \<Rightarrow> (Returned item, s1\<lparr>err_queues := (err_queues s1)[q := items]\<rparr>)))"

text \<open>
  \<^verbatim>\<open>
  def channel_method(self, method, channel=None, wait=True,
                     timeout=None, **kwargs):
      if wait and self._consumer_thread \
              and self._consumer_thread is threading.current_thread():
          raise RuntimeError(
              'Cannot wait when sending from the connection thread')
      err_queue = Queue.Queue() if wait else None
      envelope = {
          'method': method,
          'message': kwargs,
          'err_queue': err_queue,
          'channel': channel
      }
      self._connection_tasks_queue.put(envelope)
      if err_queue:
          err = err_queue.get(timeout=timeout)
          if isinstance(err, Exception):
              raise err
  \<close>
  \<open>cur\<close> is \<open>threading.current_thread()\<close>.
\<close>

definition channel_method ::
  "(connection \<Rightarrow> connection) \<Rightarrow> nat \<Rightarrow> string \<Rightarrow> pyval \<Rightarrow> bool \<Rightarrow> rat option \<Rightarrow> kwargs
     \<Rightarrow> connection \<Rightarrow> unit result \<times> connection" where
  "channel_method others cur meth chan wait timeout kw s =
     (if wait \<and> consumer_thread s \<noteq> None \<and> consumer_thread s = Some cur
      then (Raised (RuntimeError ''Cannot wait when sending from the connection thread''), s)
      else
        (let (eq, s1) =
               (if wait then (Some (length (err_queues s)), s\<lparr>err_queues := err_queues s @ [ [] ]\<rparr>)
                else (None, s));
             env = \<lparr> method_name = meth, message = kw, err_queue = eq, channel = chan \<rparr>;
             s2 = s1\<lparr>connection_tasks_queue := connection_tasks_queue s1 @ [env]\<rparr>
         in case eq of
              None \<Rightarrow> (Returned (), s2)
            | Some q \<Rightarrow>
                (case err_queue_get others q timeout s2 of
                   (Raised e, s3) \<Rightarrow> (Raised e, s3)
                 | (Blocked, s3) \<Rightarrow> (Blocked, s3)
                 | (Returned err, s3) \<Rightarrow>
                     (case err of
                        None \<Rightarrow> (Returned (), s3)
                      | Some e \<Rightarrow> if is_Exception e then (Raised e, s3) else (Returned (), s3)))))"

text \<open>
  \<^verbatim>\<open>
  def publish(self, message, wait=True, timeout=None):
      self.channel_method('publish', wait=wait, timeout=timeout, **message)

  def ack(self, channel, delivery_tag, wait=True, timeout=None):
      self.channel_method('basic_ack', wait=wait, timeout=timeout,
                          channel=channel, delivery_tag=delivery_tag)
  \<close>
  In \<open>publish\<close> a key of \<open>message\<close> that names an argument already given makes the
  call a \<open>TypeError\<close>, and a key \<open>channel\<close> is taken as the argument \<open>channel\<close>.
\<close>

definition publish ::
  "(connection \<Rightarrow> connection) \<Rightarrow> nat \<Rightarrow> kwargs \<Rightarrow> bool \<Rightarrow> rat option
     \<Rightarrow> connection \<Rightarrow> unit result \<times> connection" where
  "publish others cur msg wait timeout s =
     (if msg ''self'' \<noteq> None \<or> msg ''method'' \<noteq> None \<or> msg ''wait'' \<noteq> None \<or> msg ''timeout'' \<noteq> None
      then (Raised (TypeError ''channel_method() got multiple values for keyword argument''), s)
      else channel_method others cur ''publish''
             (case msg ''channel'' of None \<Rightarrow> PNone | Some c \<Rightarrow> c)
             wait timeout (msg(''channel'' := None)) s)"

definition ack ::
  "(connection \<Rightarrow> connection) \<Rightarrow> nat \<Rightarrow> pyval \<Rightarrow> int \<Rightarrow> bool \<Rightarrow> rat option
     \<Rightarrow> connection \<Rightarrow> unit result \<times> connection" where
  "ack others cur chan delivery_tag wait timeout s =
     channel_method others cur ''basic_ack'' chan wait timeout
       [''delivery_tag'' \<mapsto> PInt delivery_tag] s"

text \<open>
  \<^verbatim>\<open>
  def consume_in_thread(self):
      if self._consumer_thread:
          return
      self._consumer_thread = threading.Thread(target=self.consume)
      self._consumer_thread.daemon = True
      self._consumer_thread.start()
      wait_for_event(self.connect_wait)
      if self._error is not None:
          raise self._error
      return self._consumer_thread
  \<close>
  \<open>thread\<close> is the new thread object and \<open>run\<close> what that thread (in \<open>consume\<close>) does
  to the connection while the caller polls \<open>connect_wait\<close>; when the event is never set
  the caller never returns.
\<close>

definition consume_in_thread ::
  "(connection \<Rightarrow> connection) \<Rightarrow> nat \<Rightarrow> connection \<Rightarrow> nat option result \<times> connection" where
  "consume_in_thread run thread s =
     (if consumer_thread s \<noteq> None then (Returned None, s)
      else
        (let s1 = s\<lparr>consumer_thread := Some thread\<rparr>;
             s2 = run s1
         in if \<not> connect_wait s2 then (Blocked, s2)
            else case error s2 of
                   Some e \<Rightarrow> (Raised e, s2)
                 | None \<Rightarrow> (Returned (consumer_thread s2), s2)))"

subsection \<open>Draining the outbound queue\<close>

text \<open>
  The broker side of the channels. \<open>script\<close> gives the outcome of each coming call of a
  channel method (\<open>None\<close>: it returns; \<open>Some e\<close>: it raises \<open>e\<close>; past the end of the
  script every call returns), and \<open>observed\<close> records the calls that returned, oldest
  first: the object called on, the method and its keyword arguments.
\<close>

record broker =
  script :: "exc option list"
  observed :: "(pyval \<times> string \<times> kwargs) list"

definition invoke :: "broker \<Rightarrow> pyval \<Rightarrow> string \<Rightarrow> kwargs \<Rightarrow> exc option \<times> broker" where
  "invoke b target meth msg =
     (case script b of
        [] \<Rightarrow> (None, b\<lparr>observed := observed b @ [(target, meth, msg)]\<rparr>)
      | None # rest \<Rightarrow> (None, b\<lparr>script := rest, observed := observed b @ [(target, meth, msg)]\<rparr>)
      | Some e # rest \<Rightarrow> (Some e, b\<lparr>script := rest\<rparr>))"

text \<open>
  \<^verbatim>\<open>
  def _process_publish(self, channel):
      while True:
          try:
              envelope = self._connection_tasks_queue.get_nowait()
          except Queue.Empty:
              return
          target_channel = envelope['channel'] or channel
          method = envelope['method']
          message = envelope['message']
          err_queue = envelope.get('err_queue')
          try:
              getattr(target_channel, method)(**message)
          except pika.exceptions.ConnectionClosed:
              if self._closed:
                  return
              self._connection_tasks_queue.put(envelope)
              raise
          except Exception as e:
              if err_queue:
                  err_queue.put(e)
              raise
          else:
              if err_queue:
                  err_queue.put(None)
  \<close>
  \<open>Queue.put\<close> appends at the end of the queue and \<open>get_nowait\<close> takes from its front.
\<close>

function process_publish :: "pyval \<Rightarrow> connection \<Rightarrow> broker \<Rightarrow> unit result \<times> connection \<times> broker" where
  "process_publish chan s b =
     (case connection_tasks_queue s of
        [] \<Rightarrow> (Returned (), s, b)
      | env # rest \<Rightarrow>
          (let s1 = s\<lparr>connection_tasks_queue := rest\<rparr>;
               target_channel = (if truthy (channel env) then channel env else chan);
               (outcome, b1) = invoke b target_channel (method_name env) (message env)
           in case outcome of
                Some e \<Rightarrow>
                  if e = ConnectionClosed then
                    (if closed s1 then (Returned (), s1, b1)
                     else (Raised e,
                           s1\<lparr>connection_tasks_queue := connection_tasks_queue s1 @ [env]\<rparr>, b1))
                  else if is_Exception e then (Raised e, err_queue_put (err_queue env) (Some e) s1, b1)
                  else (Raised e, s1, b1)
              | None \<Rightarrow> process_publish chan (err_queue_put (err_queue env) None s1) b1))"
  by pat_completeness auto
termination
  by (relation "measure (\<lambda>(chan, s, b). length (connection_tasks_queue s))")
     (auto simp: err_queue_put_def split: option.splits)

declare process_publish.simps [simp del]

subsection \<open>The task consumer\<close>

datatype json =
    JNull
  | JBool bool
  | JNum int
  | JStr string
  | JArr "json list"
  | JObj "(string \<times> json) list"

text \<open>
  A delivery as pika hands it to \<open>process(channel, method, properties, body)\<close>:
  the channel, \<open>method.delivery_tag\<close>, the two properties the module reads and the body.
\<close>

record props =
  reply_to :: "string option"
  correlation_id :: "string option"

record delivery =
  dchannel :: pyval
  delivery_tag :: int
  properties :: props
  body :: string

type_synonym task_args = "pyval \<times> props \<times> json \<times> int"

text \<open>
  The attributes of a \<open>TaskConsumer\<close>. \<open>sem\<close> is the counter of the semaphore
  \<open>self._sem\<close> (the free pool slots), \<open>handler_connection\<close> is \<open>self._connection\<close>
  (\<open>None\<close> before \<open>register\<close>). Two fields are not attributes: \<open>started\<close> lists the
  arguments of the threads started by \<open>_run_task\<close> and \<open>logged\<close> the records written
  to the module's logger, each with its level.
\<close>

record task_consumer =
  threadpool_size :: nat
  exchange :: string
  queue :: string
  sem :: nat
  handler_connection :: "connection option"
  in_channel :: "nat option"
  tasks_buffer :: "task_args list"
  started :: "task_args list"
  logged :: "(string \<times> string) list"

text \<open>
  \<^verbatim>\<open>
  def _run_task(self, task_args):
      new_thread = threading.Thread(
          target=self._process_message,
          args=task_args
      )
      new_thread.daemon = True
      new_thread.start()
  \<close>
\<close>

definition run_task :: "task_args \<Rightarrow> 'a task_consumer_scheme \<Rightarrow> 'a task_consumer_scheme" where
  "run_task args tc = tc\<lparr>started := started tc @ [args]\<rparr>"

text \<open>
  \<^verbatim>\<open>
  def process(self, channel, method, properties, body):
      try:
          full_task = json.loads(body)
      except ValueError:
          logger.error('Error parsing task: {0}'.format(body))
          return
      task_args = (channel, properties, full_task, method.delivery_tag)
      if self._sem.acquire(blocking=False):
          self._run_task(task_args)
      else:
          self._tasks_buffer.append(task_args)
  \<close>
  \<open>loads\<close> is \<open>json.loads\<close>, with \<open>None\<close> for its \<open>ValueError\<close>.
\<close>

definition process ::
  "(string \<Rightarrow> json option) \<Rightarrow> delivery \<Rightarrow> 'a task_consumer_scheme \<Rightarrow> 'a task_consumer_scheme" where
  "process loads d tc =
     (case loads (body d) of
        None \<Rightarrow> tc\<lparr>logged := logged tc @ [(''ERROR'', ''Error parsing task: '' @ body d)]\<rparr>
      | Some full_task \<Rightarrow>
          (let args = (dchannel d, properties d, full_task, delivery_tag d)
           in if 0 < sem tc then run_task args (tc\<lparr>sem := sem tc - 1\<rparr>)
              else tc\<lparr>tasks_buffer := tasks_buffer tc @ [args]\<rparr>))"

subsection \<open>Request/response handlers\<close>

text \<open>\<open>'{0}'.format(n)\<close> for an integer: its decimal digits.\<close>

fun str_nat :: "nat \<Rightarrow> string" where
  "str_nat n = (if n < 10 then [char_of (48 + n)] else str_nat (n div 10) @ [char_of (48 + n mod 10)])"

declare str_nat.simps [simp del]

definition str_int :: "int \<Rightarrow> string" where
  "str_int i = (if i < 0 then CHR ''-'' # str_nat (nat (- i)) else str_nat (nat i))"

text \<open>
  \<^verbatim>\<open>
  def publish(self, message, correlation_id, routing_key='',
              expiration=None):
      if expiration is not None:
          # rabbitmq wants it to be a string
          expiration = '{0}'.format(expiration)
      self._connection.publish({
          'exchange': self.exchange,
          'body': json.dumps(message),
          'properties': pika.BasicProperties(
              reply_to=self.queue,
              correlation_id=correlation_id,
              expiration=expiration),
          'routing_key': routing_key
      })
  \<close>
  of \<open>_RequestResponseHandlerBase\<close>; \<open>dumps\<close> is \<open>json.dumps\<close>. The call of
  \<open>self._connection.publish\<close> waits without timeout for the actor.
\<close>

definition rr_publish ::
  "(connection \<Rightarrow> connection) \<Rightarrow> nat \<Rightarrow> (json \<Rightarrow> string) \<Rightarrow> json \<Rightarrow> string \<Rightarrow> string \<Rightarrow> int option
     \<Rightarrow> 'a task_consumer_scheme \<Rightarrow> unit result \<times> 'a task_consumer_scheme" where
  "rr_publish others cur dumps msg cid routing_key expiration h =
     (let expiration' = (case expiration of None \<Rightarrow> None | Some n \<Rightarrow> Some (str_int n))
      in case handler_connection h of
           None \<Rightarrow> (Raised (AttributeError ''NoneType object has no attribute publish''), h)
         | Some c \<Rightarrow>
             (let (r, c') =
                    publish others cur
                      [''exchange'' \<mapsto> PStr (exchange h),
                       ''body'' \<mapsto> PStr (dumps msg),
                       ''properties'' \<mapsto> BasicProperties (Some (queue h)) (Some cid) expiration',
                       ''routing_key'' \<mapsto> PStr routing_key]
                      True None c
              in (r, h\<lparr>handler_connection := Some c'\<rparr>)))"

text \<open>
  The blocking handler: \<open>_response_queues\<close> maps a correlation id to a queue of
  responses, given by its items, oldest first.
\<close>

record blocking_handler = task_consumer +
  response_queues :: "string \<rightharpoonup> json list"

text \<open>
  \<^verbatim>\<open>
  def process(self, channel, method, properties, body):
      channel.basic_ack(method.delivery_tag)
      try:
          response = json.loads(body)
      except ValueError:
          logger.error('Error parsing response: {0}'.format(body))
          return
      if properties.correlation_id in self._response_queues:
          self._response_queues[properties.correlation_id].put(response)
  \<close>
\<close>

definition blocking_process ::
  "(string \<Rightarrow> json option) \<Rightarrow> delivery \<Rightarrow> blocking_handler \<times> broker
     \<Rightarrow> unit result \<times> blocking_handler \<times> broker" where
  "blocking_process loads d hb =
     (let (h, b) = hb;
          (outcome, b1) = invoke b (dchannel d) ''basic_ack'' [''delivery_tag'' \<mapsto> PInt (delivery_tag d)]
      in case outcome of
           Some e \<Rightarrow> (Raised e, h, b1)
         | None \<Rightarrow>
             (case loads (body d) of
                None \<Rightarrow>
                  (Returned (),
                   h\<lparr>logged := logged h @ [(''ERROR'', ''Error parsing response: '' @ body d)]\<rparr>, b1)
              | Some response \<Rightarrow>
                  (case correlation_id (properties d) of
                     None \<Rightarrow> (Returned (), h, b1)
                   | Some cid \<Rightarrow>
                       (case response_queues h cid of
                          None \<Rightarrow> (Returned (), h, b1)
                        | Some q \<Rightarrow>
                            (Returned (),
                             h\<lparr>response_queues := (response_queues h)(cid \<mapsto> q @ [response])\<rparr>,
                             b1)))))"

text \<open>
  What the consumer thread does while a caller waits for a response: pika calls
  \<open>process\<close> once for each delivery that arrives, in order.
\<close>

fun blocking_deliver ::
  "(string \<Rightarrow> json option) \<Rightarrow> delivery list \<Rightarrow> blocking_handler \<times> broker \<Rightarrow> blocking_handler \<times> broker" where
  "blocking_deliver loads [] hb = hb"
| "blocking_deliver loads (d # ds) hb =
     (case blocking_process loads d hb of (r, hb1) \<Rightarrow> blocking_deliver loads ds hb1)"

text \<open>
  \<^verbatim>\<open>
  def publish(self, message, *args, **kwargs):
      timeout = kwargs.pop('timeout', None)
      correlation_id = kwargs.pop('correlation_id', None)
      if correlation_id is None:
          correlation_id = uuid.uuid4().hex
      self._response_queues[correlation_id] = Queue.Queue()
      super(BlockingRequestResponseHandler, self).publish(
          message, correlation_id, *args, **kwargs)
      try:
          resp = self._response_queues[correlation_id].get(timeout=timeout)
          return resp
      except Queue.Empty:
          raise RuntimeError('No response received for task {0}'
                             .format(correlation_id))
      finally:
          del self._response_queues[correlation_id]
  \<close>
  \<open>fresh\<close> is \<open>uuid.uuid4().hex\<close> and \<open>arriving\<close> the deliveries that the consumer
  thread passes to \<open>process\<close> during the wait on the response queue.
\<close>

definition blocking_publish ::
  "(connection \<Rightarrow> connection) \<Rightarrow> nat \<Rightarrow> string \<Rightarrow> (json \<Rightarrow> string) \<Rightarrow> (string \<Rightarrow> json option)
     \<Rightarrow> delivery list \<Rightarrow> json \<Rightarrow> rat option \<Rightarrow> string option \<Rightarrow> string \<Rightarrow> int option
     \<Rightarrow> blocking_handler \<times> broker \<Rightarrow> json result \<times> blocking_handler \<times> broker" where
  "blocking_publish others cur fresh dumps loads arriving msg timeout corr routing_key expiration hb =
     (let (h, b) = hb;
          cid = (case corr of None \<Rightarrow> fresh | Some c \<Rightarrow> c);
          h1 = h\<lparr>response_queues := (response_queues h)(cid \<mapsto> [])\<rparr>;
          (r, h2) = rr_publish others cur dumps msg cid routing_key expiration h1
      in case r of
           Raised e \<Rightarrow> (Raised e, h2, b)
         | Blocked \<Rightarrow> (Blocked, h2, b)
         | Returned _ \<Rightarrow>
             (case response_queues h2 cid of
                None \<Rightarrow> (Raised (KeyError cid), h2, b)
              | Some _ \<Rightarrow>
                  if (case timeout of None \<Rightarrow> False | Some t \<Rightarrow> t < 0)
                  then (Raised (ValueError ''timeout must be a non-negative number''),
                        h2\<lparr>response_queues := (response_queues h2)(cid := None)\<rparr>, b)
                  else
                    (let (h3, b3) = blocking_deliver loads arriving (h2, b)
                     in case response_queues h3 cid of
                          None \<Rightarrow> (Raised (KeyError cid), h3, b3)
                        | Some [] \<Rightarrow>
                            if timeout = None then (Blocked, h3, b3)
                            else (Raised (RuntimeError (''No response received for task '' @ cid)),
                                  h3\<lparr>response_queues := (response_queues h3)(cid := None)\<rparr>, b3)
                        | Some (resp # rest) \<Rightarrow>
                            (Returned resp,
                             h3\<lparr>response_queues := (response_queues h3)(cid := None)\<rparr>, b3))))"

text \<open>
  The callback handler: \<open>_callbacks\<close> maps a correlation id to a callback (a function
  object, here its name); \<open>invoked\<close> is not an attribute, it records the calls of
  callbacks so far, each with the response passed.
\<close>

record callback_handler = task_consumer +
  callbacks :: "string \<rightharpoonup> nat"
  invoked :: "(nat \<times> json) list"

text \<open>
  \<^verbatim>\<open>
  def wait_for_response(self, correlation_id, callback):
      self._callbacks[correlation_id] = callback

  def publish(self, message, *args, **kwargs):
      callback = kwargs.pop('callback', None)
      correlation_id = kwargs.pop('correlation_id', None)
      if correlation_id is None:
          correlation_id = uuid.uuid4().hex
      if callback:
          self.wait_for_response(correlation_id, callback)
      super(CallbackRequestResponseHandler, self).publish(
          message, correlation_id, *args, **kwargs)

  def process(self, channel, method, properties, body):
      channel.basic_ack(method.delivery_tag)
      try:
          response = json.loads(body)
      except ValueError:
          logger.error('Error parsing response: {0}'.format(body))
          return
      if properties.correlation_id in self._callbacks:
          self._callbacks[properties.correlation_id](response)
  \<close>
\<close>

definition wait_for_response :: "string \<Rightarrow> nat \<Rightarrow> callback_handler \<Rightarrow> callback_handler" where
  "wait_for_response cid callback h = h\<lparr>callbacks := (callbacks h)(cid \<mapsto> callback)\<rparr>"

definition callback_publish ::
  "(connection \<Rightarrow> connection) \<Rightarrow> nat \<Rightarrow> string \<Rightarrow> (json \<Rightarrow> string) \<Rightarrow> json \<Rightarrow> nat option
     \<Rightarrow> string option \<Rightarrow> string \<Rightarrow> int option \<Rightarrow> callback_handler
     \<Rightarrow> unit result \<times> callback_handler" where
  "callback_publish others cur fresh dumps msg callback corr routing_key expiration h =
     (let cid = (case corr of None \<Rightarrow> fresh | Some c \<Rightarrow> c);
          h1 = (case callback of None \<Rightarrow> h | Some cb \<Rightarrow> wait_for_response cid cb h)
      in rr_publish others cur dumps msg cid routing_key expiration h1)"

definition callback_process ::
  "(string \<Rightarrow> json option) \<Rightarrow> delivery \<Rightarrow> callback_handler \<times> broker
     \<Rightarrow> unit result \<times> callback_handler \<times> broker" where
  "callback_process loads d hb =
     (let (h, b) = hb;
          (outcome, b1) = invoke b (dchannel d) ''basic_ack'' [''delivery_tag'' \<mapsto> PInt (delivery_tag d)]
      in case outcome of
           Some e \<Rightarrow> (Raised e, h, b1)
         | None \<Rightarrow>
             (case loads (body d) of
                None \<Rightarrow>
                  (Returned (),
                   h\<lparr>logged := logged h @ [(''ERROR'', ''Error parsing response: '' @ body d)]\<rparr>, b1)
              | Some response \<Rightarrow>
                  (case correlation_id (properties d) of
                     None \<Rightarrow> (Returned (), h, b1)
                   | Some cid \<Rightarrow>
                       (case callbacks h cid of
                          None \<Rightarrow> (Returned (), h, b1)
                        | Some cb \<Rightarrow>
                            (Returned (), h\<lparr>invoked := invoked h @ [(cb, response)]\<rparr>, b1)))))"

subsection \<open>Runs of connect attempts\<close>

text \<open>
  A connect attempt is a call of \<open>_get_pika_connection\<close>, given with what
  \<open>pika.BlockingConnection\<close> does, the clock and the two arguments of the call. It
  fails when \<open>pika.BlockingConnection\<close> raises an \<open>AMQPConnectionError\<close>.
  \<open>attempt\<close> is the connection after the call, whether it returned or raised.
\<close>

definition attempt_fails :: "(string \<Rightarrow> exc + nat) \<times> rat \<times> string \<times> rat option \<Rightarrow> bool" where
  "attempt_fails a =
     (case a of (dial, clock, params, deadline) \<Rightarrow>
        (case dial params of Inl e \<Rightarrow> is_AMQPConnectionError e | Inr c \<Rightarrow> False))"

definition attempt ::
  "(string \<Rightarrow> exc + nat) \<times> rat \<times> string \<times> rat option \<Rightarrow> connection \<Rightarrow> connection" where
  "attempt a s =
     (case a of (dial, clock, params, deadline) \<Rightarrow>
        snd (get_pika_connection dial clock params deadline s))"

text \<open>
  The connection after a waiting \<open>channel_method\<close> has made its reply queue and put its
  envelope, at the start of its wait.
\<close>

definition submitted :: "string \<Rightarrow> pyval \<Rightarrow> kwargs \<Rightarrow> connection \<Rightarrow> connection" where
  "submitted meth chan kw s =
     s\<lparr>err_queues := err_queues s @ [ [] ],
       connection_tasks_queue := connection_tasks_queue s @
         [\<lparr> method_name = meth, message = kw, err_queue = Some (length (err_queues s)),
            channel = chan \<rparr>]\<rparr>"

subsection \<open>What the broker sees of an envelope\<close>

text \<open>
  The call that \<open>_process_publish\<close> makes for an envelope, as the broker records it,
  when the shared out-channel is \<open>chan\<close>.
\<close>

definition call_of :: "pyval \<Rightarrow> envelope \<Rightarrow> pyval \<times> string \<times> kwargs" where
  "call_of chan env =
     (if truthy (channel env) then channel env else chan, method_name env, message env)"

text \<open>
  An example: a new connection on which one producer has called \<open>publish\<close> three
  times with \<open>wait=False\<close>, and the envelope of such a call.
\<close>

definition three_publishes :: connection where
  "three_publishes =
     snd (publish id 1 [''body'' \<mapsto> PStr ''m3''] False None
       (snd (publish id 1 [''body'' \<mapsto> PStr ''m2''] False None
         (snd (publish id 1 [''body'' \<mapsto> PStr ''m1''] False None
            (init (HostStr ''broker'') None))))))"

definition publish_envelope :: "string \<Rightarrow> envelope" where
  "publish_envelope text =
     \<lparr> method_name = ''publish'', message = [''body'' \<mapsto> PStr text], err_queue = None,
       channel = PNone \<rparr>"

subsection \<open>Replies and acknowledgements\<close>

text \<open>
  The parsed responses that carry the correlation id \<open>cid\<close> among the deliveries
  \<open>ds\<close>, in the order of arrival; and a broker on which every coming call succeeds.
\<close>

definition replies :: "(string \<Rightarrow> json option) \<Rightarrow> string \<Rightarrow> delivery list \<Rightarrow> json list" where
  "replies loads cid ds =
     List.map_filter
       (\<lambda>d. if correlation_id (properties d) = Some cid then loads (body d) else None) ds"

definition acks_succeed :: "broker \<Rightarrow> bool" where
  "acks_succeed b = list_all (\<lambda>outcome. outcome = None) (script b)"

text \<open>
  Examples: a consumer thread that drains the outbound queue once, on a broker that accepts
  every call, while a caller waits, and one that drains it on a broker that closes the
  channel on the first call; a blocking and a callback handler registered on a new
  connection; a reply with the correlation id \<open>c1\<close> and the body \<open>{}\<close>; and a
  \<open>json.loads\<close> that knows this body only.
\<close>

definition actor_drains :: "connection \<Rightarrow> connection" where
  "actor_drains s = fst (snd (process_publish (PChannel 0) s \<lparr> script = [], observed = [] \<rparr>))"

definition actor_refused :: "connection \<Rightarrow> connection" where
  "actor_refused s =
     fst (snd (process_publish (PChannel 0) s
       \<lparr> script = [Some (ChannelClosed ''NOT_FOUND - no exchange'')], observed = [] \<rparr>))"

definition example_blocking :: blocking_handler where
  "example_blocking =
     \<lparr> threadpool_size = 5, exchange = ''rpc'', queue = ''rpc_response_1'', sem = 5,
       handler_connection = Some (init (HostStr ''broker'') None), in_channel = Some 2,
       tasks_buffer = [], started = [], logged = [], response_queues = Map.empty \<rparr>"

definition example_callback :: callback_handler where
  "example_callback =
     \<lparr> threadpool_size = 5, exchange = ''rpc'', queue = ''rpc_response_1'', sem = 5,
       handler_connection = Some (init (HostStr ''broker'') None), in_channel = Some 2,
       tasks_buffer = [], started = [], logged = [], callbacks = Map.empty, invoked = [] \<rparr>"

definition example_reply :: delivery where
  "example_reply =
     \<lparr> dchannel = PChannel 2, delivery_tag = 1,
       properties = \<lparr> reply_to = None, correlation_id = Some ''c1'' \<rparr>, body = ''{}'' \<rparr>"

definition example_loads :: "string \<Rightarrow> json option" where
  "example_loads b = (if b = ''{}'' then Some (JObj []) else None)"

section \<open>Properties\<close>

subsection \<open>Rejected and repeated calls\<close>

text \<open>
  Claim C8. A call of \<open>channel_method\<close> with \<open>wait=True\<close> made by the consumer thread
  itself raises the \<open>RuntimeError\<close> of the misuse check (the spec's \<open>MisuseError\<close>)
  and leaves the connection, and so the outbound queue, exactly as it was: no envelope
  is put.
\<close>

theorem C8_misuse_rejected:
  "consumer_thread s = Some cur \<Longrightarrow>
   channel_method others cur meth chan True timeout kw s =
     (Raised (RuntimeError ''Cannot wait when sending from the connection thread''), s)"
  by (simp add: channel_method_def)

theorem C8_misuse_rejected_witness:
  "consumer_thread ((init (HostStr ''broker'') None)\<lparr>consumer_thread := Some 7\<rparr>) = Some 7 \<and>
   channel_method id 7 ''publish'' PNone True (Some 1) Map.empty
       ((init (HostStr ''broker'') None)\<lparr>consumer_thread := Some 7\<rparr>) =
     (Raised (RuntimeError ''Cannot wait when sending from the connection thread''),
      (init (HostStr ''broker'') None)\<lparr>consumer_thread := Some 7\<rparr>) \<and>
   connection_tasks_queue
     (snd (channel_method id 7 ''publish'' PNone True (Some 1) Map.empty
       ((init (HostStr ''broker'') None)\<lparr>consumer_thread := Some 7\<rparr>))) = []"
  using C8_misuse_rejected [of "(init (HostStr ''broker'') None)\<lparr>consumer_thread := Some 7\<rparr>" 7
      id "''publish''" PNone "Some 1" Map.empty]
  by (simp add: init_def)

text \<open>
  Claim C10. When a consumer thread exists already, \<open>consume_in_thread\<close> returns
  \<open>None\<close> at once: whatever a new thread would have done (\<open>run\<close>), whether the
  connected event is set and whatever error is stored, the connection is unchanged, no
  thread is started and nothing is raised.
\<close>

theorem C10_second_consume_in_thread:
  "consumer_thread s = Some t \<Longrightarrow> consume_in_thread run thread s = (Returned None, s)"
  by (simp add: consume_in_thread_def)

theorem C10_second_consume_in_thread_witness:
  "consumer_thread ((init (HostStr ''broker'') None)
      \<lparr>consumer_thread := Some 7, error := Some ConnectionClosed\<rparr>) = Some 7 \<and>
   consume_in_thread (\<lambda>s. s\<lparr>connect_wait := True\<rparr>) 8
       ((init (HostStr ''broker'') None)\<lparr>consumer_thread := Some 7, error := Some ConnectionClosed\<rparr>) =
     (Returned None,
      (init (HostStr ''broker'') None)\<lparr>consumer_thread := Some 7, error := Some ConnectionClosed\<rparr>)"
  using C10_second_consume_in_thread [of
      "(init (HostStr ''broker'') None)\<lparr>consumer_thread := Some 7, error := Some ConnectionClosed\<rparr>" 7
      "\<lambda>s. s\<lparr>connect_wait := True\<rparr>" 8]
  by (simp add: init_def)

text \<open>
  Claim C9. A connect attempt that succeeds returns the connection and sets the closed
  flag to \<open>False\<close>, from any state. So when \<open>close\<close> has set the flag (and, with
  \<open>wait=True\<close>, waits in \<open>join\<close> for a consumer thread that has not ended) and a
  connect attempt then succeeds, the connection is marked open again.
\<close>

theorem C9_connect_reopens:
  "dial params = Inr c \<Longrightarrow>
   fst (get_pika_connection dial clock params deadline s) = Returned (Some c) \<and>
   \<not> closed (snd (get_pika_connection dial clock params deadline s)) \<and>
   closed (snd (close cur (\<lambda>s. None) wait s)) \<and>
   \<not> closed (snd (get_pika_connection dial clock params deadline
                    (snd (close cur (\<lambda>s. None) wait s))))"
  by (simp add: get_pika_connection_def close_def reset_reconnect_backoff_def Let_def)

theorem C9_connect_reopens_witness:
  "(\<lambda>h. Inr 3 :: exc + nat) ''broker'' = Inr 3 \<and>
   closed (snd (close 1 (\<lambda>s. None) True
     ((init (HostStr ''broker'') None)\<lparr>consumer_thread := Some 7\<rparr>))) \<and>
   \<not> closed (snd (get_pika_connection (\<lambda>h. Inr 3) 0 ''broker'' None
        (snd (close 1 (\<lambda>s. None) True
          ((init (HostStr ''broker'') None)\<lparr>consumer_thread := Some 7\<rparr>)))))"
  using C9_connect_reopens [where dial = "\<lambda>h. Inr 3" and params = "''broker''" and c = 3
      and clock = 0 and deadline = None and cur = 1 and wait = True
      and s = "(init (HostStr ''broker'') None)\<lparr>consumer_thread := Some 7\<rparr>"]
  by simp

subsection \<open>Deliveries that are not JSON\<close>

text \<open>
  Claim C6. When the body of a delivery is not valid JSON, \<open>TaskConsumer.process\<close>
  writes one error record to the log and changes nothing else: the semaphore counter, the
  threads started, the task buffer and the connection (so its outbound queue, where an
  ack would be put) are as before.
\<close>

theorem C6_invalid_json_dropped:
  "loads (body d) = None \<Longrightarrow>
   process loads d tc = tc\<lparr>logged := logged tc @ [(''ERROR'', ''Error parsing task: '' @ body d)]\<rparr> \<and>
   sem (process loads d tc) = sem tc \<and>
   started (process loads d tc) = started tc \<and>
   tasks_buffer (process loads d tc) = tasks_buffer tc \<and>
   handler_connection (process loads d tc) = handler_connection tc"
  by (simp add: process_def)

theorem C6_invalid_json_dropped_witness:
  "(\<lambda>b. if b = ''{}'' then Some (JObj []) else None)
     (body \<lparr> dchannel = PChannel 1, delivery_tag = 4,
             properties = \<lparr> reply_to = None, correlation_id = None \<rparr>,
             body = ''not json{'' \<rparr>) = None \<and>
   sem (process (\<lambda>b. if b = ''{}'' then Some (JObj []) else None)
     \<lparr> dchannel = PChannel 1, delivery_tag = 4,
       properties = \<lparr> reply_to = None, correlation_id = None \<rparr>,
       body = ''not json{'' \<rparr>
     \<lparr> threadpool_size = 5, exchange = ''ex'', queue = ''ex_'', sem = 5,
       handler_connection = Some (init (HostStr ''broker'') None), in_channel = Some 1,
       tasks_buffer = [], started = [], logged = [] \<rparr>) = 5 \<and>
   logged (process (\<lambda>b. if b = ''{}'' then Some (JObj []) else None)
     \<lparr> dchannel = PChannel 1, delivery_tag = 4,
       properties = \<lparr> reply_to = None, correlation_id = None \<rparr>,
       body = ''not json{'' \<rparr>
     \<lparr> threadpool_size = 5, exchange = ''ex'', queue = ''ex_'', sem = 5,
       handler_connection = Some (init (HostStr ''broker'') None), in_channel = Some 1,
       tasks_buffer = [], started = [], logged = [] \<rparr>) =
     [(''ERROR'', ''Error parsing task: not json{'')]"
  using C6_invalid_json_dropped [of "\<lambda>b. if b = ''{}'' then Some (JObj []) else None"
     "\<lparr> dchannel = PChannel 1, delivery_tag = 4,
       properties = \<lparr> reply_to = None, correlation_id = None \<rparr>,
       body = ''not json{'' \<rparr>"
     "\<lparr> threadpool_size = 5, exchange = ''ex'', queue = ''ex_'', sem = 5,
       handler_connection = Some (init (HostStr ''broker'') None), in_channel = Some 1,
       tasks_buffer = [], started = [], logged = [] \<rparr>"]
  by simp

subsection \<open>The backoff law\<close>

lemma cap_step: "min (min x 30 * 2) (30::int) = min (2 * x) 30"
  by (simp add: min_def)

lemma failed_attempt:
  assumes "attempt_fails a" and "reconnect_backoff s = min (2 ^ k) 30"
  shows "slept (attempt a s) = slept s @ [min (2 ^ k) 30]"
    and "reconnect_backoff (attempt a s) = min (2 ^ Suc k) 30"
proof -
  obtain dial clock params deadline where a: "a = (dial, clock, params, deadline)"
    by (cases a) auto
  from assms(1) a obtain e where e: "dial params = Inl e" "is_AMQPConnectionError e"
    by (auto simp: attempt_fails_def split: sum.splits)
  have nonneg: "\<not> min (2 ^ k) (30::int) < 0" by (simp add: min_def)
  show "slept (attempt a s) = slept s @ [min (2 ^ k) 30]"
    using e assms(2) nonneg
    by (simp add: a attempt_def get_pika_connection_def get_reconnect_backoff_def
        time_sleep_def MAX_BACKOFF_def Let_def split: option.splits)
  show "reconnect_backoff (attempt a s) = min (2 ^ Suc k) 30"
    using e assms(2) nonneg
    by (simp add: cap_step a attempt_def get_pika_connection_def get_reconnect_backoff_def
        time_sleep_def MAX_BACKOFF_def Let_def split: option.splits)
qed

lemma failed_run:
  "\<forall>a\<in>set fails. attempt_fails a \<Longrightarrow> reconnect_backoff s = min (2 ^ k) 30 \<Longrightarrow>
   slept (fold attempt fails s) = slept s @ map (\<lambda>i. min (2 ^ (k + i)) 30) [0..<length fails] \<and>
   reconnect_backoff (fold attempt fails s) = min (2 ^ (k + length fails)) 30"
proof (induction fails arbitrary: s k)
  case Nil
  then show ?case by simp
next
  case (Cons a fails)
  have a: "attempt_fails a" and rest: "\<forall>a\<in>set fails. attempt_fails a"
    using Cons.prems(1) by simp_all
  note step = failed_attempt [OF a Cons.prems(2)]
  have ih: "slept (fold attempt fails (attempt a s)) =
              slept (attempt a s) @ map (\<lambda>i. min (2 ^ (Suc k + i)) 30) [0..<length fails] \<and>
            reconnect_backoff (fold attempt fails (attempt a s)) = min (2 ^ (Suc k + length fails)) 30"
    by (rule Cons.IH [OF rest step(2)])
  have shift: "map (\<lambda>i. min (2 ^ (k + i)) (30::int)) [0..<Suc (length fails)] =
               min (2 ^ k) 30 # map (\<lambda>i. min (2 ^ (Suc k + i)) 30) [0..<length fails]"
    by (simp only: upt_conv_Cons [of 0] map_Suc_upt [symmetric]) (simp add: comp_def)
  show ?case
    using ih step(1) shift by simp
qed

text \<open>
  Claim C2. In a run of failed connect attempts that starts from a new connection, the
  \<open>i\<close>-th sleep (counted from 0) lasts \<open>min (2 ^ i) 30\<close> seconds, that is 1, 2, 4, 8,
  16, 30, 30, ...; the stored backoff is doubled and capped after each failure and never
  exceeds 30. A connect attempt that succeeds, from any state, stores the backoff 1, and
  the run of failures after it sleeps 1, 2, 4, ... again. The deadline does not matter:
  an attempt that raises for it has slept before.
\<close>

theorem C2_backoff_law:
  "list_all attempt_fails fails \<Longrightarrow>
   slept (fold attempt fails (init host timeout)) = map (\<lambda>i. min (2 ^ i) 30) [0..<length fails] \<and>
   reconnect_backoff (fold attempt fails (init host timeout)) = min (2 ^ length fails) 30 \<and>
   reconnect_backoff (fold attempt fails (init host timeout)) \<le> 30 \<and>
   (dial params = Inr c \<longrightarrow>
      reconnect_backoff (snd (get_pika_connection dial clock params deadline s)) = 1 \<and>
      slept (fold attempt fails (snd (get_pika_connection dial clock params deadline s))) =
        slept s @ map (\<lambda>i. min (2 ^ i) 30) [0..<length fails])"
proof -
  assume "list_all attempt_fails fails"
  then have fails: "\<forall>a\<in>set fails. attempt_fails a"
    by (simp add: list_all_iff)
  have i: "reconnect_backoff (init host timeout) = min (2 ^ 0) 30" "slept (init host timeout) = []"
    by (simp_all add: init_def)
  note r0 = failed_run [OF fails i(1)]
  have a: "slept (fold attempt fails (init host timeout)) = map (\<lambda>i. min (2 ^ i) 30) [0..<length fails]"
    using r0 i(2) by simp
  have b: "reconnect_backoff (fold attempt fails (init host timeout)) = min (2 ^ length fails) 30"
    using r0 by simp
  have c: "reconnect_backoff (fold attempt fails (init host timeout)) \<le> 30"
    using b by simp
  have d: "reconnect_backoff (snd (get_pika_connection dial clock params deadline s)) = 1 \<and>
      slept (fold attempt fails (snd (get_pika_connection dial clock params deadline s))) =
        slept s @ map (\<lambda>i. min (2 ^ i) 30) [0..<length fails]" if ok: "dial params = Inr c"
  proof -
    let ?s = "snd (get_pika_connection dial clock params deadline s)"
    have s1: "reconnect_backoff ?s = 1" "slept ?s = slept s"
      using ok by (simp_all add: get_pika_connection_def reset_reconnect_backoff_def)
    then have "reconnect_backoff ?s = min (2 ^ 0) 30" by simp
    from failed_run [OF fails this] s1 show ?thesis by simp
  qed
  show ?thesis using a b c d by blast
qed

theorem C2_backoff_law_witness:
  "list_all attempt_fails (replicate 7 (\<lambda>h. Inl (AMQPConnectionError ''refused''), 0, ''h1'', None)) \<and>
   slept (fold attempt (replicate 7 (\<lambda>h. Inl (AMQPConnectionError ''refused''), 0, ''h1'', None))
            (init (HostStr ''h1'') None)) = [1, 2, 4, 8, 16, 30, 30] \<and>
   slept (fold attempt (replicate 7 (\<lambda>h. Inl (AMQPConnectionError ''refused''), 0, ''h1'', None))
            (snd (get_pika_connection (\<lambda>h. Inr 3) 0 ''h1'' None
               (fold attempt (replicate 3 (\<lambda>h. Inl (AMQPConnectionError ''refused''), 0, ''h1'', None))
                  (init (HostStr ''h1'') None))))) =
     [1, 2, 4] @ [1, 2, 4, 8, 16, 30, 30]"
proof -
  let ?f = "(\<lambda>h::string. Inl (AMQPConnectionError ''refused'') :: exc + nat, 0::rat, ''h1'', None :: rat option)"
  have h: "list_all attempt_fails (replicate 7 ?f)"
    by (simp add: attempt_fails_def list_all_iff)
  have h3: "\<forall>a\<in>set (replicate 3 ?f). attempt_fails a"
    by (simp add: attempt_fails_def)
  have up7: "[0..<7] = [0, 1, 2, 3, 4, 5, 6::nat]" by (simp add: upt_rec)
  have up3: "[0..<3] = [0, 1, 2::nat]" by (simp add: upt_rec)
  have ok: "(\<lambda>h::string. Inr 3 :: exc + nat) ''h1'' = Inr 3" by simp
  have three: "slept (fold attempt (replicate 3 ?f) (init (HostStr ''h1'') None)) = [1, 2, 4]"
    using failed_run [OF h3, of "init (HostStr ''h1'') None" 0] up3 by (simp add: init_def)
  note t = C2_backoff_law [OF h, of "HostStr ''h1''" None "\<lambda>h. Inr 3" "''h1''" 3 0 None
      "fold attempt (replicate 3 ?f) (init (HostStr ''h1'') None)"]
  show ?thesis using h t ok up7 three by simp
qed

subsection \<open>The rotation of hosts\<close>

lemma resume_Cons: "resume hosts (h # r) = Some (h, r)"
  by (subst resume.simps) simp

lemma resume_Nil: "resume (h # t) [] = Some (h, t)"
  by (subst resume.simps) (simp add: resume_Cons)

lemma resume_Some_nonempty:
  assumes r: "resume hosts rest = Some y"
  shows "hosts \<noteq> [] \<or> rest \<noteq> []"
proof (rule resume.raw_induct [where P = "\<lambda>hosts rest y. hosts \<noteq> [] \<or> rest \<noteq> []", OF _ r])
  fix f :: "string list \<Rightarrow> string list \<Rightarrow> (string \<times> string list) option"
  fix hosts rest :: "string list" and y :: "string \<times> string list"
  assume ih: "\<And>rest b y. f rest b = Some y \<Longrightarrow> rest \<noteq> [] \<or> b \<noteq> []"
    and body: "(case rest of [] \<Rightarrow> f hosts hosts | host # rest' \<Rightarrow> Some (host, rest')) = Some y"
  show "hosts \<noteq> [] \<or> rest \<noteq> []"
  proof (cases rest)
    case Nil
    with body have "f hosts hosts = Some y" by simp
    from ih [OF this] show ?thesis by simp
  next
    case (Cons h r)
    then show ?thesis by simp
  qed
qed

lemma resume_empty: "resume [] [] = None"
  using resume_Some_nonempty [of "[]" "[]"] by (cases "resume [] []") auto

lemma next_params_Suspended:
  "connection_params s = Suspended hosts (h # r) \<Longrightarrow>
   next_params sh s = Some (h, s\<lparr>connection_params := Suspended hosts r\<rparr>)"
  by (simp add: next_params_def resume_Cons)

lemma nexts_take:
  "connection_params s = Suspended hosts rest \<Longrightarrow> k \<le> length rest \<Longrightarrow>
   nexts sh k s = Some (take k rest, s\<lparr>connection_params := Suspended hosts (drop k rest)\<rparr>)"
proof (induction k arbitrary: s rest)
  case 0
  then show ?case by simp
next
  case (Suc k)
  then obtain h r where rest: "rest = h # r" by (cases rest) auto
  let ?s1 = "s\<lparr>connection_params := Suspended hosts r\<rparr>"
  have step: "next_params sh s = Some (h, ?s1)"
    using Suc.prems(1) rest by (simp add: next_params_Suspended)
  have "nexts sh k ?s1 = Some (take k r, ?s1\<lparr>connection_params := Suspended hosts (drop k r)\<rparr>)"
    using Suc.prems(2) rest by (intro Suc.IH) simp_all
  then show ?case using step rest by simp
qed

lemma nexts_add:
  "nexts sh (m + n) s =
     (case nexts sh m s of
        None \<Rightarrow> None
      | Some (ys, s1) \<Rightarrow>
          (case nexts sh n s1 of None \<Rightarrow> None | Some (zs, s2) \<Rightarrow> Some (ys @ zs, s2)))"
  by (induction m arbitrary: s) (auto split: option.splits)

lemma nexts_wrap:
  assumes "connection_params s = Suspended hosts []" and "hosts \<noteq> []" and "k \<le> length hosts"
  shows "map_option fst (nexts sh k s) = Some (take k hosts)"
proof (cases k)
  case 0
  then show ?thesis by simp
next
  case (Suc j)
  obtain h t where hosts: "hosts = h # t" using assms(2) by (cases hosts) auto
  let ?s1 = "s\<lparr>connection_params := Suspended hosts t\<rparr>"
  have step: "next_params sh s = Some (h, ?s1)"
    using assms(1) hosts by (simp add: next_params_def resume_Nil)
  have "nexts sh j ?s1 = Some (take j t, ?s1\<lparr>connection_params := Suspended hosts (drop j t)\<rparr>)"
    using assms(3) Suc hosts by (intro nexts_take) simp_all
  then show ?thesis using step Suc hosts by simp
qed

lemma nexts_cycle:
  assumes "connection_params s = Suspended hosts []" and "hosts \<noteq> []"
  shows "nexts sh (length hosts) s = Some (hosts, s)"
proof -
  obtain h t where hosts: "hosts = h # t" using assms(2) by (cases hosts) auto
  let ?s1 = "s\<lparr>connection_params := Suspended hosts t\<rparr>"
  have step: "next_params sh s = Some (h, ?s1)"
    using assms(1) hosts by (simp add: next_params_def resume_Nil)
  have "nexts sh (length t) ?s1 = Some (take (length t) t, ?s1\<lparr>connection_params := Suspended hosts (drop (length t) t)\<rparr>)"
    by (intro nexts_take) simp_all
  moreover have "s\<lparr>connection_params := Suspended hosts []\<rparr> = s"
    using assms(1) by simp
  ultimately show ?thesis using step hosts by simp
qed

lemma nexts_cycles:
  assumes "connection_params s = Suspended hosts []" and "hosts \<noteq> []"
  shows "nexts sh (c * length hosts) s = Some (concat (replicate c hosts), s)"
proof (induction c)
  case 0
  then show ?case by simp
next
  case (Suc c)
  have "nexts sh (length hosts + c * length hosts) s = Some (hosts @ concat (replicate c hosts), s)"
    unfolding nexts_add [of sh "length hosts" "c * length hosts" s]
    by (simp add: nexts_cycle [OF assms] Suc.IH)
  then show ?case by simp
qed

lemma nexts_started:
  assumes "connection_params s = Suspended hosts hosts" and "hosts \<noteq> []" and "k \<le> length hosts"
  shows "map_option fst (nexts sh (c * length hosts + k) s) =
           Some (concat (replicate c hosts) @ take k hosts)"
proof (cases c)
  case 0
  then show ?thesis using nexts_take [OF assms(1) assms(3), of sh] by simp
next
  case (Suc c')
  let ?s1 = "s\<lparr>connection_params := Suspended hosts []\<rparr>"
  have first: "nexts sh (length hosts) s = Some (hosts, ?s1)"
    using nexts_take [OF assms(1), of "length hosts" sh] by simp
  have s1: "connection_params ?s1 = Suspended hosts []" by simp
  have cyc: "nexts sh (c' * length hosts) ?s1 = Some (concat (replicate c' hosts), ?s1)"
    by (rule nexts_cycles [OF s1 assms(2)])
  have last: "map_option fst (nexts sh k ?s1) = Some (take k hosts)"
    by (rule nexts_wrap [OF s1 assms(2) assms(3)])
  have n: "c * length hosts + k = length hosts + (c' * length hosts + k)"
    using Suc by simp
  have mid: "nexts sh (c' * length hosts + k) ?s1 =
          (case nexts sh k ?s1 of None \<Rightarrow> None
           | Some (zs, s2) \<Rightarrow> Some (concat (replicate c' hosts) @ zs, s2))"
    unfolding nexts_add [of sh "c' * length hosts" k ?s1] by (simp add: cyc)
  have "map_option fst (nexts sh (length hosts + (c' * length hosts + k)) s) =
          Some (hosts @ concat (replicate c' hosts) @ take k hosts)"
    unfolding nexts_add [of sh "length hosts" "c' * length hosts + k" s]
    using last by (auto simp: first mid split: option.splits)
  then show ?thesis by (simp only: n) (simp add: Suc)
qed

lemma nexts_unstarted:
  assumes "connection_params s = Unstarted"
    and "hosts = (case amqp_raw_host s of HostStr h \<Rightarrow> [h] | HostList hs \<Rightarrow> sh hs)"
  shows "map_option fst (nexts sh n s) =
         map_option fst (nexts sh n (s\<lparr>connection_params := Suspended hosts hosts\<rparr>))"
proof (cases n)
  case 0
  then show ?thesis by simp
next
  case (Suc m)
  have "next_params sh s = next_params sh (s\<lparr>connection_params := Suspended hosts hosts\<rparr>)"
    using assms by (simp add: next_params_def Let_def split: option.splits)
  then show ?thesis using Suc by simp
qed

lemma replicate_one: "concat (replicate c [h]) = replicate c h"
  by (induction c) simp_all

text \<open>
  Claim C7. The iterator of a new connection never ends: every \<open>next\<close> returns. For a
  string host every value is that host. For a list of hosts, which \<open>random.shuffle\<close>
  permutes once (at the first \<open>next\<close>, where the generator's body starts), the values
  are the shuffled list over and over: after \<open>c\<close> full cycles and \<open>k\<close> more calls
  they are \<open>c\<close> copies of the shuffled list followed by its first \<open>k\<close> hosts, so each
  cycle has every host once, in the same order. The list must not be empty: with no host
  the generator never reaches a \<open>yield\<close> (\<open>resume_empty\<close>).
\<close>

theorem C7_host_rotation:
  assumes "connection_params s = Unstarted"
  shows
   "(amqp_raw_host s = HostStr h \<longrightarrow> map_option fst (nexts shuffle n s) = Some (replicate n h)) \<and>
    (amqp_raw_host s = HostList hs \<and> hs \<noteq> [] \<and> mset (shuffle hs) = mset hs \<and> k \<le> length hs \<longrightarrow>
       map_option fst (nexts shuffle (c * length hs + k) s) =
         Some (concat (replicate c (shuffle hs)) @ take k (shuffle hs)))"
proof (intro conjI impI)
  assume str: "amqp_raw_host s = HostStr h"
  let ?s1 = "s\<lparr>connection_params := Suspended [h] [h]\<rparr>"
  have "map_option fst (nexts shuffle (n * length [h] + 0) ?s1) =
          Some (concat (replicate n [h]) @ take 0 [h])"
    by (rule nexts_started) simp_all
  then have "map_option fst (nexts shuffle n ?s1) = Some (replicate n h)"
    by (simp add: replicate_one)
  then show "map_option fst (nexts shuffle n s) = Some (replicate n h)"
    using nexts_unstarted [OF assms, of "[h]" shuffle n] str by simp
next
  assume lst: "amqp_raw_host s = HostList hs \<and> hs \<noteq> [] \<and> mset (shuffle hs) = mset hs \<and> k \<le> length hs"
  let ?hosts = "shuffle hs"
  let ?s1 = "s\<lparr>connection_params := Suspended ?hosts ?hosts\<rparr>"
  have len: "length ?hosts = length hs"
    using lst by (metis size_mset)
  have ne: "?hosts \<noteq> []" using lst len by auto
  have "map_option fst (nexts shuffle (c * length ?hosts + k) ?s1) =
          Some (concat (replicate c ?hosts) @ take k ?hosts)"
    using ne lst len by (intro nexts_started) simp_all
  then show "map_option fst (nexts shuffle (c * length hs + k) s) =
         Some (concat (replicate c (shuffle hs)) @ take k (shuffle hs))"
    using nexts_unstarted [OF assms, of ?hosts shuffle "c * length hs + k"] lst len by simp
qed

theorem C7_host_rotation_witness:
  "connection_params (init (HostStr ''h1'') None) = Unstarted \<and>
   map_option fst (nexts rev 3 (init (HostStr ''h1'') None)) = Some [''h1'', ''h1'', ''h1''] \<and>
   mset (rev [''h1'', ''h2'', ''h3'']) = mset [''h1'', ''h2'', ''h3''] \<and>
   map_option fst (nexts rev 7 (init (HostList [''h1'', ''h2'', ''h3'']) None)) =
     Some [''h3'', ''h2'', ''h1'', ''h3'', ''h2'', ''h1'', ''h3'']"
proof -
  have u1: "connection_params (init (HostStr ''h1'') None) = Unstarted"
    and u2: "connection_params (init (HostList [''h1'', ''h2'', ''h3'']) None) = Unstarted"
    by (simp_all add: init_def)
  have a: "map_option fst (nexts rev 3 (init (HostStr ''h1'') None)) = Some [''h1'', ''h1'', ''h1'']"
    using C7_host_rotation [OF u1, of "''h1''" rev 3 "[]" 0 0]
    by (simp add: init_def numeral_3_eq_3)
  have b: "map_option fst (nexts rev 7 (init (HostList [''h1'', ''h2'', ''h3'']) None)) =
     Some [''h3'', ''h2'', ''h1'', ''h3'', ''h2'', ''h1'', ''h3'']"
    using C7_host_rotation [OF u2, of "''x''" rev 0 "[''h1'', ''h2'', ''h3'']" 1 2]
    by (simp add: init_def eval_nat_numeral)
  show ?thesis using u1 a b by simp
qed

subsection \<open>Waiting for the reply\<close>

lemma channel_method_timeout:
  assumes "consumer_thread s \<noteq> Some cur" and "0 \<le> t"
    and "reply_items (length (err_queues s)) (others (submitted meth chan kw s)) = []"
  shows "channel_method others cur meth chan True (Some t) kw s =
           (Raised Queue_Empty, others (submitted meth chan kw s))"
  using assms
  by (simp add: channel_method_def err_queue_get_def submitted_def Let_def not_less [symmetric])

text \<open>
  Claim C3. A call of \<open>channel_method\<close> with \<open>wait=True\<close> and a timeout
  \<open>t \<ge> 0\<close>, made by a thread other than the consumer thread, puts its envelope and
  waits on the reply queue; when the other threads have put nothing into that queue by
  the end of the wait, the call raises \<open>Queue.Empty\<close>, the error of the expired wait
  (the spec's \<open>TimeoutError\<close>). The same holds for \<open>publish\<close> (for a message whose
  keys name no argument given twice) and for \<open>ack\<close>. The envelope stays in the queue
  unless the other threads took it.
\<close>

theorem C3_wait_times_out:
  assumes "consumer_thread s \<noteq> Some cur" and "0 \<le> t"
  shows
   "(reply_items (length (err_queues s)) (others (submitted meth chan kw s)) = [] \<longrightarrow>
       channel_method others cur meth chan True (Some t) kw s =
         (Raised Queue_Empty, others (submitted meth chan kw s))) \<and>
    (msg ''self'' = None \<and> msg ''method'' = None \<and> msg ''wait'' = None \<and> msg ''timeout'' = None \<and>
     reply_items (length (err_queues s))
       (others (submitted ''publish'' (case msg ''channel'' of None \<Rightarrow> PNone | Some c \<Rightarrow> c)
                  (msg(''channel'' := None)) s)) = [] \<longrightarrow>
       fst (publish others cur msg True (Some t) s) = Raised Queue_Empty) \<and>
    (reply_items (length (err_queues s))
       (others (submitted ''basic_ack'' chan [''delivery_tag'' \<mapsto> PInt tag] s)) = [] \<longrightarrow>
       fst (ack others cur chan tag True (Some t) s) = Raised Queue_Empty)"
  using channel_method_timeout [OF assms]
  by (simp add: publish_def ack_def)

theorem C3_wait_times_out_witness:
  "consumer_thread (init (HostStr ''broker'') None) \<noteq> Some 1 \<and> (0::rat) \<le> 1 / 2 \<and>
   reply_items (length (err_queues (init (HostStr ''broker'') None)))
     (id (submitted ''queue_declare'' (PChannel 2) [''queue'' \<mapsto> PStr ''q''] (init (HostStr ''broker'') None))) = [] \<and>
   channel_method id 1 ''queue_declare'' (PChannel 2) True (Some (1 / 2)) [''queue'' \<mapsto> PStr ''q'']
       (init (HostStr ''broker'') None) =
     (Raised Queue_Empty,
      submitted ''queue_declare'' (PChannel 2) [''queue'' \<mapsto> PStr ''q''] (init (HostStr ''broker'') None)) \<and>
   fst (publish id 1 [''body'' \<mapsto> PStr ''m''] True (Some (1 / 2)) (init (HostStr ''broker'') None)) =
     Raised Queue_Empty \<and>
   fst (ack id 1 (PChannel 2) 5 True (Some (1 / 2)) (init (HostStr ''broker'') None)) =
     Raised Queue_Empty"
  using C3_wait_times_out [of "init (HostStr ''broker'') None" 1 "1 / 2" id
      "''queue_declare''" "PChannel 2" "[''queue'' \<mapsto> PStr ''q'']" "[''body'' \<mapsto> PStr ''m'']" 5]
  by (simp add: init_def submitted_def reply_items_def)

subsection \<open>Draining the queue across a lost connection\<close>

lemma err_queue_put_fields [simp]:
  "connection_tasks_queue (err_queue_put q x s) = connection_tasks_queue s"
  "closed (err_queue_put q x s) = closed s"
  by (simp_all add: err_queue_put_def split: option.splits)

lemma process_publish_Nil:
  "connection_tasks_queue s = [] \<Longrightarrow> process_publish chan s b = (Returned (), s, b)"
  by (subst process_publish.simps) simp

lemma process_publish_ok:
  assumes "connection_tasks_queue s = env # rest"
    and "script b = [] \<or> (\<exists>sc. script b = None # sc)"
  shows "process_publish chan s b =
           process_publish chan
             (err_queue_put (err_queue env) None (s\<lparr>connection_tasks_queue := rest\<rparr>))
             (b\<lparr>script := tl (script b), observed := observed b @ [call_of chan env]\<rparr>)"
proof -
  have b: "b\<lparr>script := tl (script b)\<rparr> = b" if "script b = []"
    using that by (cases b) simp
  have eq: "script b = [] \<Longrightarrow> b\<lparr>script := [], observed := x\<rparr> = b\<lparr>observed := x\<rparr>" for x
    using b by (cases b) simp
  show ?thesis
    using assms
    by (subst process_publish.simps) (auto simp: eq invoke_def call_of_def Let_def)
qed

lemma process_publish_closed:
  assumes "connection_tasks_queue s = env # rest"
    and "script b = Some ConnectionClosed # sc" and "\<not> closed s"
  shows "process_publish chan s b =
           (Raised ConnectionClosed, s\<lparr>connection_tasks_queue := rest @ [env]\<rparr>, b\<lparr>script := sc\<rparr>)"
  using assms
  by (subst process_publish.simps) (simp add: invoke_def Let_def)

lemma drain_all:
  "connection_tasks_queue s = q \<Longrightarrow> script b = [] \<Longrightarrow>
   fst (process_publish chan s b) = Returned () \<and>
   connection_tasks_queue (fst (snd (process_publish chan s b))) = [] \<and>
   observed (snd (snd (process_publish chan s b))) = observed b @ map (call_of chan) q"
proof (induction q arbitrary: s b)
  case Nil
  then show ?case by (simp add: process_publish_Nil)
next
  case (Cons env rest)
  let ?s1 = "err_queue_put (err_queue env) None (s\<lparr>connection_tasks_queue := rest\<rparr>)"
  let ?b1 = "b\<lparr>script := tl (script b), observed := observed b @ [call_of chan env]\<rparr>"
  have step: "process_publish chan s b = process_publish chan ?s1 ?b1"
    using Cons.prems by (intro process_publish_ok) simp_all
  have "connection_tasks_queue ?s1 = rest" "script ?b1 = []"
    using Cons.prems by simp_all
  from Cons.IH [OF this] show ?case
    by (simp add: step)
qed

lemma drain_until_closed:
  "connection_tasks_queue s = pre @ env # post \<Longrightarrow>
   script b = replicate (length pre) None @ Some ConnectionClosed # sc \<Longrightarrow> \<not> closed s \<Longrightarrow>
   fst (process_publish chan s b) = Raised ConnectionClosed \<and>
   connection_tasks_queue (fst (snd (process_publish chan s b))) = post @ [env] \<and>
   \<not> closed (fst (snd (process_publish chan s b))) \<and>
   observed (snd (snd (process_publish chan s b))) = observed b @ map (call_of chan) pre \<and>
   script (snd (snd (process_publish chan s b))) = sc"
proof (induction pre arbitrary: s b)
  case Nil
  then show ?case by (simp add: process_publish_closed [where rest = post and sc = sc])
next
  case (Cons e pre)
  let ?s1 = "err_queue_put (err_queue e) None (s\<lparr>connection_tasks_queue := pre @ env # post\<rparr>)"
  let ?b1 = "b\<lparr>script := tl (script b), observed := observed b @ [call_of chan e]\<rparr>"
  have step: "process_publish chan s b = process_publish chan ?s1 ?b1"
    using Cons.prems by (intro process_publish_ok) simp_all
  have "connection_tasks_queue ?s1 = pre @ env # post"
    "script ?b1 = replicate (length pre) None @ Some ConnectionClosed # sc" "\<not> closed ?s1"
    using Cons.prems by simp_all
  from Cons.IH [OF this] show ?case
    by (simp add: step)
qed

text \<open>
  Claim C1, as the code has it. When the call for an envelope raises
  \<open>ConnectionClosed\<close> and the connection is not closed, the envelopes before it have
  reached the broker in order, the drain raises \<open>ConnectionClosed\<close> (so that the loop
  reconnects), and the failed envelope is put back at the end of the queue, behind the
  envelopes submitted after it. The drain after the reconnect, on a broker that accepts
  every call, empties the queue and delivers the later envelopes in their order and the
  failed envelope last.
\<close>

theorem C1_requeued_at_tail:
  assumes "connection_tasks_queue s = pre @ env # post"
    and "script b = replicate (length pre) None @ Some ConnectionClosed # sc"
    and "\<not> closed s"
    and "script b' = []"
  shows "fst (process_publish chan s b) = Raised ConnectionClosed \<and>
         connection_tasks_queue (fst (snd (process_publish chan s b))) = post @ [env] \<and>
         observed (snd (snd (process_publish chan s b))) = observed b @ map (call_of chan) pre \<and>
         fst (process_publish chan' (fst (snd (process_publish chan s b))) b') = Returned () \<and>
         connection_tasks_queue
           (fst (snd (process_publish chan' (fst (snd (process_publish chan s b))) b'))) = [] \<and>
         observed (snd (snd (process_publish chan' (fst (snd (process_publish chan s b))) b'))) =
           observed b' @ map (call_of chan') post @ [call_of chan' env]"
proof -
  note first = drain_until_closed [OF assms(1) assms(2) assms(3), of chan]
  from first have q: "connection_tasks_queue (fst (snd (process_publish chan s b))) = post @ [env]"
    by simp
  from drain_all [OF q assms(4), of chan'] first show ?thesis by simp
qed

lemma three_publishes_queue:
  "connection_tasks_queue three_publishes =
     [publish_envelope ''m1'', publish_envelope ''m2'', publish_envelope ''m3'']"
  "closed three_publishes = False"
  by (simp_all add: three_publishes_def publish_envelope_def publish_def channel_method_def
      init_def Let_def fun_upd_idem)

lemma publish_envelope_eq: "publish_envelope a = publish_envelope b \<longleftrightarrow> a = b"
  by (auto simp: publish_envelope_def dest: map_upd_eqD1)

lemma call_of_publish:
  "call_of chan (publish_envelope text) = (chan, ''publish'', [''body'' \<mapsto> PStr text])"
  by (simp add: call_of_def publish_envelope_def)

text \<open>
  Claim C1 as stated fails: of three publishes the second meets \<open>ConnectionClosed\<close>;
  the queue is then \<open>m3, m2\<close> and not \<open>m2, m3\<close>, and after the reconnect the broker
  receives \<open>m3\<close> before \<open>m2\<close>.
\<close>

theorem C1_head_of_line_counterexample:
  "fst (process_publish (PChannel 0) three_publishes
         \<lparr> script = [None, Some ConnectionClosed], observed = [] \<rparr>) = Raised ConnectionClosed \<and>
   connection_tasks_queue (fst (snd (process_publish (PChannel 0) three_publishes
         \<lparr> script = [None, Some ConnectionClosed], observed = [] \<rparr>))) =
     [publish_envelope ''m3'', publish_envelope ''m2''] \<and>
   connection_tasks_queue (fst (snd (process_publish (PChannel 0) three_publishes
         \<lparr> script = [None, Some ConnectionClosed], observed = [] \<rparr>))) \<noteq>
     [publish_envelope ''m2'', publish_envelope ''m3''] \<and>
   map (\<lambda>c. snd (snd c) ''body'')
     (observed (snd (snd (process_publish (PChannel 1)
       (fst (snd (process_publish (PChannel 0) three_publishes
          \<lparr> script = [None, Some ConnectionClosed], observed = [] \<rparr>)))
       \<lparr> script = [], observed = [] \<rparr>)))) = [Some (PStr ''m3''), Some (PStr ''m2'')]"
proof -
  let ?b = "\<lparr> script = [None, Some ConnectionClosed], observed = [] \<rparr>"
  let ?b' = "\<lparr> script = [], observed = [] \<rparr>"
  have q: "connection_tasks_queue three_publishes =
             [publish_envelope ''m1''] @ publish_envelope ''m2'' # [publish_envelope ''m3'']"
    by (simp add: three_publishes_queue)
  have sc: "script ?b = replicate (length [publish_envelope ''m1'']) None @ Some ConnectionClosed # []"
    by simp
  have op: "\<not> closed three_publishes"
    by (simp add: three_publishes_queue)
  note first = drain_until_closed [OF q sc op, of "PChannel 0"]
  from first have q1: "connection_tasks_queue (fst (snd (process_publish (PChannel 0) three_publishes ?b))) =
      [publish_envelope ''m3'', publish_envelope ''m2'']"
    by simp
  have "script ?b' = []" by simp
  note second = drain_all [OF q1 this, of "PChannel 1"]
  show ?thesis
    using first second by (simp add: publish_envelope_eq call_of_publish)
qed

theorem C1_requeued_at_tail_witness:
  "connection_tasks_queue three_publishes =
     [publish_envelope ''m1''] @ publish_envelope ''m2'' # [publish_envelope ''m3''] \<and>
   script \<lparr> script = [None, Some ConnectionClosed], observed = [] \<rparr> =
     replicate (length [publish_envelope ''m1'']) None @ Some ConnectionClosed # [] \<and>
   \<not> closed three_publishes \<and>
   script \<lparr> script = [], observed = [] \<rparr> = [] \<and>
   observed (snd (snd (process_publish (PChannel 0) three_publishes
         \<lparr> script = [None, Some ConnectionClosed], observed = [] \<rparr>))) =
     [(PChannel 0, ''publish'', [''body'' \<mapsto> PStr ''m1''])] \<and>
   observed (snd (snd (process_publish (PChannel 1)
       (fst (snd (process_publish (PChannel 0) three_publishes
          \<lparr> script = [None, Some ConnectionClosed], observed = [] \<rparr>)))
       \<lparr> script = [], observed = [] \<rparr>))) =
     [(PChannel 1, ''publish'', [''body'' \<mapsto> PStr ''m3'']),
      (PChannel 1, ''publish'', [''body'' \<mapsto> PStr ''m2''])]"
proof -
  have q: "connection_tasks_queue three_publishes =
             [publish_envelope ''m1''] @ publish_envelope ''m2'' # [publish_envelope ''m3'']"
    by (simp add: three_publishes_queue)
  have sc: "script \<lparr> script = [None, Some ConnectionClosed], observed = [] \<rparr> =
      replicate (length [publish_envelope ''m1'']) None @ Some ConnectionClosed # []"
    by simp
  have op: "\<not> closed three_publishes"
    by (simp add: three_publishes_queue)
  have ok: "script \<lparr> script = [], observed = [] \<rparr> = []" by simp
  show ?thesis
    using C1_requeued_at_tail [OF q sc op ok, of "PChannel 0" "PChannel 1"] q op
    by (simp add: call_of_publish)
qed

subsection \<open>The correlation tables\<close>

lemma rr_publish_response_queues:
  "rr_publish others cur dumps msg cid rk ex h = (r, h') \<Longrightarrow> response_queues h' = response_queues h"
  by (auto simp: rr_publish_def Let_def split: option.splits prod.splits)

lemma rr_publish_callbacks:
  "callbacks (snd (rr_publish others cur dumps msg cid rk ex h)) = callbacks h \<and>
   invoked (snd (rr_publish others cur dumps msg cid rk ex h)) = invoked h"
  by (auto simp: rr_publish_def Let_def split: option.splits prod.splits)

lemma invoke_ok:
  "acks_succeed b \<Longrightarrow> fst (invoke b t m k) = None \<and> acks_succeed (snd (invoke b t m k))"
  by (cases "script b") (auto simp: invoke_def acks_succeed_def split: option.splits)

lemma replies_Nil [simp]: "replies loads cid [] = []"
  by (simp add: replies_def map_filter_simps)

lemma replies_Cons:
  "replies loads cid (d # ds) =
     (if correlation_id (properties d) = Some cid
      then (case loads (body d) of None \<Rightarrow> replies loads cid ds | Some r \<Rightarrow> r # replies loads cid ds)
      else replies loads cid ds)"
  by (simp add: replies_def map_filter_simps split: option.splits)

lemma blocking_process_queue:
  assumes "acks_succeed b"
  shows "response_queues (fst (snd (blocking_process loads d (h, b)))) cid =
           map_option (\<lambda>q. q @ replies loads cid [d]) (response_queues h cid) \<and>
         acks_succeed (snd (snd (blocking_process loads d (h, b))))"
proof -
  obtain b1 where inv: "invoke b (dchannel d) ''basic_ack'' [''delivery_tag'' \<mapsto> PInt (delivery_tag d)] = (None, b1)"
    and b1: "acks_succeed b1"
    using invoke_ok [OF assms, of "dchannel d" "''basic_ack''" "[''delivery_tag'' \<mapsto> PInt (delivery_tag d)]"]
    by (cases "invoke b (dchannel d) ''basic_ack'' [''delivery_tag'' \<mapsto> PInt (delivery_tag d)]") auto
  show ?thesis
    using b1
    by (cases "response_queues h cid")
       (auto simp: blocking_process_def inv replies_Cons option.map_id0 split: option.splits)
qed

lemma blocking_deliver_queue:
  "acks_succeed b \<Longrightarrow>
   response_queues (fst (blocking_deliver loads ds (h, b))) cid =
     map_option (\<lambda>q. q @ replies loads cid ds) (response_queues h cid)"
proof (induction ds arbitrary: h b)
  case Nil
  then show ?case by (cases "response_queues h cid") simp_all
next
  case (Cons d ds)
  obtain r h1 b1 where step: "blocking_process loads d (h, b) = (r, h1, b1)"
    by (cases "blocking_process loads d (h, b)") auto
  from blocking_process_queue [OF Cons.prems, of loads d h cid] step
  have q1: "response_queues h1 cid = map_option (\<lambda>q. q @ replies loads cid [d]) (response_queues h cid)"
    and b1: "acks_succeed b1" by simp_all
  have split: "replies loads cid (d # ds) = replies loads cid [d] @ replies loads cid ds"
    by (simp add: replies_Cons split: option.splits)
  show ?case
    using Cons.IH [OF b1, of h1] q1
    by (cases "response_queues h cid") (simp_all add: step split)
qed

lemma blocking_process_dom:
  "(response_queues (fst (snd (blocking_process loads d (h, b)))) cid = None) =
   (response_queues h cid = None)"
  by (auto simp: blocking_process_def Let_def split: option.splits prod.splits)

lemma blocking_deliver_dom:
  "(response_queues (fst (blocking_deliver loads ds (h, b))) cid = None) =
   (response_queues h cid = None)"
proof (induction ds arbitrary: h b)
  case Nil
  then show ?case by simp
next
  case (Cons d ds)
  obtain r h1 b1 where step: "blocking_process loads d (h, b) = (r, h1, b1)"
    by (cases "blocking_process loads d (h, b)") auto
  from blocking_process_dom [of loads d h b cid] step
  have "(response_queues h1 cid = None) = (response_queues h cid = None)" by simp
  with Cons.IH [of h1 b1] show ?case by (simp add: step)
qed

lemma blocking_publish_result:
  assumes "fst (rr_publish others cur dumps msg cid routing_key expiration
             (h\<lparr>response_queues := (response_queues h)(cid \<mapsto> [])\<rparr>)) = Returned ()"
    and "cid = (case corr of None \<Rightarrow> fresh | Some c \<Rightarrow> c)"
    and "\<not> (case timeout of None \<Rightarrow> False | Some t \<Rightarrow> t < 0)" and "acks_succeed b"
  shows "fst (blocking_publish others cur fresh dumps loads arriving msg timeout corr
                routing_key expiration (h, b)) =
           (case replies loads cid arriving of
              [] \<Rightarrow> if timeout = None then Blocked
                    else Raised (RuntimeError (''No response received for task '' @ cid))
            | resp # later \<Rightarrow> Returned resp)"
proof -
  obtain h2 where base: "rr_publish others cur dumps msg cid routing_key expiration
             (h\<lparr>response_queues := (response_queues h)(cid \<mapsto> [])\<rparr>) = (Returned (), h2)"
    using assms(1) by (metis prod.collapse)
  have q2: "response_queues h2 cid = Some []"
    using rr_publish_response_queues [OF base] by simp
  obtain h3 b3 where del: "blocking_deliver loads arriving (h2, b) = (h3, b3)"
    by (cases "blocking_deliver loads arriving (h2, b)") auto
  have q3: "response_queues h3 cid = Some (replies loads cid arriving)"
    using blocking_deliver_queue [OF assms(4), of loads arriving h2 cid] q2 del by simp
  show ?thesis
    using base assms(3) q2 q3 del
    by (simp add: blocking_publish_def assms(2) [symmetric] Let_def split: list.splits)
qed

lemma blocking_publish_removes:
  assumes "fst (rr_publish others cur dumps msg cid routing_key expiration
             (h\<lparr>response_queues := (response_queues h)(cid \<mapsto> [])\<rparr>)) = Returned ()"
    and "cid = (case corr of None \<Rightarrow> fresh | Some c \<Rightarrow> c)"
    and "fst (blocking_publish others cur fresh dumps loads arriving msg timeout corr
                routing_key expiration (h, b)) \<noteq> Blocked"
  shows "response_queues (fst (snd (blocking_publish others cur fresh dumps loads arriving msg
                timeout corr routing_key expiration (h, b)))) cid = None"
proof -
  obtain h2 where base: "rr_publish others cur dumps msg cid routing_key expiration
             (h\<lparr>response_queues := (response_queues h)(cid \<mapsto> [])\<rparr>) = (Returned (), h2)"
    using assms(1) by (metis prod.collapse)
  have q2: "response_queues h2 cid = Some []"
    using rr_publish_response_queues [OF base] by simp
  obtain h3 b3 where del: "blocking_deliver loads arriving (h2, b) = (h3, b3)"
    by (cases "blocking_deliver loads arriving (h2, b)") auto
  have q3: "response_queues h3 cid \<noteq> None"
    using blocking_deliver_dom [of loads arriving h2 b cid] q2 del by simp
  then obtain q where q: "response_queues h3 cid = Some q" by auto
  show ?thesis
    using assms(3) base q2 q del
    by (cases q)
       (auto simp: blocking_publish_def assms(2) [symmetric] Let_def split: if_splits option.splits)
qed

lemma blocking_process_other:
  "correlation_id (properties d) \<noteq> Some cid \<Longrightarrow>
   response_queues (fst (snd (blocking_process loads d (h, b)))) cid = response_queues h cid"
  by (auto simp: blocking_process_def Let_def split: option.splits prod.splits)

lemma blocking_deliver_other:
  "list_all (\<lambda>d. correlation_id (properties d) \<noteq> Some cid) ds \<Longrightarrow>
   response_queues (fst (blocking_deliver loads ds (h, b))) cid = response_queues h cid"
proof (induction ds arbitrary: h b)
  case Nil
  then show ?case by simp
next
  case (Cons d ds)
  obtain r h1 b1 where step: "blocking_process loads d (h, b) = (r, h1, b1)"
    by (cases "blocking_process loads d (h, b)") auto
  have d: "correlation_id (properties d) \<noteq> Some cid"
    and ds: "list_all (\<lambda>d. correlation_id (properties d) \<noteq> Some cid) ds"
    using Cons.prems by simp_all
  from blocking_process_other [OF d, of loads h b] step
  have "response_queues h1 cid = response_queues h cid" by simp
  with Cons.IH [OF ds, of h1 b1] show ?case by (simp add: step)
qed

lemma blocking_publish_no_reply:
  assumes "fst (rr_publish others cur dumps msg cid routing_key expiration
             (h\<lparr>response_queues := (response_queues h)(cid \<mapsto> [])\<rparr>)) = Returned ()"
    and "cid = (case corr of None \<Rightarrow> fresh | Some c \<Rightarrow> c)"
    and "0 \<le> t"
    and "list_all (\<lambda>d. correlation_id (properties d) \<noteq> Some cid) arriving"
  shows "fst (blocking_publish others cur fresh dumps loads arriving msg (Some t) corr
                routing_key expiration (h, b)) =
           Raised (RuntimeError (''No response received for task '' @ cid))"
proof -
  obtain h2 where base: "rr_publish others cur dumps msg cid routing_key expiration
             (h\<lparr>response_queues := (response_queues h)(cid \<mapsto> [])\<rparr>) = (Returned (), h2)"
    using assms(1) by (metis prod.collapse)
  have q2: "response_queues h2 cid = Some []"
    using rr_publish_response_queues [OF base] by simp
  obtain h3 b3 where del: "blocking_deliver loads arriving (h2, b) = (h3, b3)"
    by (cases "blocking_deliver loads arriving (h2, b)") auto
  have q3: "response_queues h3 cid = Some []"
    using blocking_deliver_other [OF assms(4), of loads h2 b] q2 del by simp
  show ?thesis
    using base assms(3) q2 q3 del
    by (simp add: blocking_publish_def assms(2) [symmetric] Let_def)
qed

lemma blocking_publish_comes_back:
  assumes "fst (rr_publish others cur dumps msg cid routing_key expiration
             (h\<lparr>response_queues := (response_queues h)(cid \<mapsto> [])\<rparr>)) = Returned ()"
    and "cid = (case corr of None \<Rightarrow> fresh | Some c \<Rightarrow> c)"
  shows "fst (blocking_publish others cur fresh dumps loads arriving msg (Some t) corr
                routing_key expiration (h, b)) \<noteq> Blocked"
proof -
  obtain h2 where base: "rr_publish others cur dumps msg cid routing_key expiration
             (h\<lparr>response_queues := (response_queues h)(cid \<mapsto> [])\<rparr>) = (Returned (), h2)"
    using assms(1) by (metis prod.collapse)
  have q2: "response_queues h2 cid = Some []"
    using rr_publish_response_queues [OF base] by simp
  obtain h3 b3 where del: "blocking_deliver loads arriving (h2, b) = (h3, b3)"
    by (cases "blocking_deliver loads arriving (h2, b)") auto
  show ?thesis
    using base q2 del
    by (cases "response_queues h3 cid")
       (auto simp: blocking_publish_def assms(2) [symmetric] Let_def split: list.splits)
qed

text \<open>
  Claim C5, as the code has it. Take a blocking \<open>publish\<close> with a timeout
  \<open>t \<ge> 0\<close> whose envelope was sent: the publish of the base class, which waits for
  the actor without a timeout and outside the \<open>try\<close>, has returned. When no delivery
  that arrives during the wait carries the correlation id of the publish, the call raises
  the \<open>RuntimeError\<close> \<open>No response received for task ...\<close> (the spec's
  \<open>NoResponseError\<close>). When the deliveries are acked, the call returns the parsed body
  of the first delivery that carries the correlation id and parses, and raises that error
  when there is none. On each of these exits the table has no entry for the correlation
  id afterwards.
\<close>

theorem C5_blocking_publish_sent:
  assumes "fst (rr_publish others cur dumps msg cid routing_key expiration
             (h\<lparr>response_queues := (response_queues h)(cid \<mapsto> [])\<rparr>)) = Returned ()"
    and "cid = (case corr of None \<Rightarrow> fresh | Some c \<Rightarrow> c)"
    and "0 \<le> t"
  shows "(list_all (\<lambda>d. correlation_id (properties d) \<noteq> Some cid) arriving \<longrightarrow>
            fst (blocking_publish others cur fresh dumps loads arriving msg (Some t) corr
                   routing_key expiration (h, b)) =
              Raised (RuntimeError (''No response received for task '' @ cid))) \<and>
         (acks_succeed b \<longrightarrow>
            fst (blocking_publish others cur fresh dumps loads arriving msg (Some t) corr
                   routing_key expiration (h, b)) =
              (case replies loads cid arriving of
                 [] \<Rightarrow> Raised (RuntimeError (''No response received for task '' @ cid))
               | resp # later \<Rightarrow> Returned resp)) \<and>
         response_queues (fst (snd (blocking_publish others cur fresh dumps loads arriving msg
                (Some t) corr routing_key expiration (h, b)))) cid = None"
proof (intro conjI impI)
  assume "list_all (\<lambda>d. correlation_id (properties d) \<noteq> Some cid) arriving"
  then show "fst (blocking_publish others cur fresh dumps loads arriving msg (Some t) corr
                   routing_key expiration (h, b)) =
              Raised (RuntimeError (''No response received for task '' @ cid))"
    by (rule blocking_publish_no_reply [OF assms])
next
  assume acks: "acks_succeed b"
  have t: "\<not> (case Some t of None \<Rightarrow> False | Some t \<Rightarrow> t < 0)"
    using assms(3) by simp
  from blocking_publish_result [OF assms(1) assms(2) t acks, of loads arriving]
  show "fst (blocking_publish others cur fresh dumps loads arriving msg (Some t) corr
                   routing_key expiration (h, b)) =
              (case replies loads cid arriving of
                 [] \<Rightarrow> Raised (RuntimeError (''No response received for task '' @ cid))
               | resp # later \<Rightarrow> Returned resp)"
    by (simp split: list.splits)
next
  show "response_queues (fst (snd (blocking_publish others cur fresh dumps loads arriving msg
                (Some t) corr routing_key expiration (h, b)))) cid = None"
    by (rule blocking_publish_removes
          [OF assms(1) assms(2) blocking_publish_comes_back [OF assms(1) assms(2)]])
qed

lemma actor_drains_one:
  assumes "connection_tasks_queue s = [env]"
  shows "actor_drains s = err_queue_put (err_queue env) None (s\<lparr>connection_tasks_queue := []\<rparr>)"
proof -
  let ?b = "\<lparr> script = [], observed = [] \<rparr>"
  have "process_publish (PChannel 0) s ?b =
          process_publish (PChannel 0)
            (err_queue_put (err_queue env) None (s\<lparr>connection_tasks_queue := []\<rparr>))
            (?b\<lparr>script := tl (script ?b), observed := observed ?b @ [call_of (PChannel 0) env]\<rparr>)"
    using assms by (intro process_publish_ok) simp_all
  then show ?thesis
    by (simp add: actor_drains_def process_publish_Nil)
qed

lemma channel_method_drained:
  assumes "consumer_thread s \<noteq> Some cur" and "connection_tasks_queue s = []"
  shows "fst (channel_method actor_drains cur meth chan True None kw s) = Returned ()"
proof -
  let ?env = "\<lparr> method_name = meth, message = kw, err_queue = Some (length (err_queues s)),
                channel = chan \<rparr>"
  let ?s2 = "s\<lparr>err_queues := err_queues s @ [ [] ], connection_tasks_queue := [?env]\<rparr>"
  have "actor_drains ?s2 =
          err_queue_put (err_queue ?env) None (?s2\<lparr>connection_tasks_queue := []\<rparr>)"
    by (rule actor_drains_one) simp
  then have items: "reply_items (length (err_queues s)) (actor_drains ?s2) = [None]"
    by (simp add: err_queue_put_def reply_items_def)
  show ?thesis
    using assms items
    by (simp add: channel_method_def err_queue_get_def Let_def)
qed

lemma example_base_publish:
  "fst (rr_publish actor_drains 1 (\<lambda>j. ''{}'') (JObj []) ''c1'' [] None
     (h\<lparr>handler_connection := Some (init (HostStr ''broker'') None)\<rparr>)) = Returned ()"
proof -
  have "fst (channel_method actor_drains 1 meth chan True None kw (init (HostStr ''broker'') None)) =
          Returned ()" for meth chan kw
    by (rule channel_method_drained) (simp_all add: init_def)
  then show ?thesis
    by (simp add: rr_publish_def publish_def Let_def split_beta)
qed

lemma process_publish_raises:
  assumes "connection_tasks_queue s = env # rest"
    and "script b = Some e # sc" and "e \<noteq> ConnectionClosed" and "is_Exception e"
  shows "process_publish chan s b =
           (Raised e, err_queue_put (err_queue env) (Some e) (s\<lparr>connection_tasks_queue := rest\<rparr>),
            b\<lparr>script := sc\<rparr>)"
  using assms
  by (subst process_publish.simps) (simp add: invoke_def Let_def)

lemma channel_method_refused:
  assumes "consumer_thread s \<noteq> Some cur" and "connection_tasks_queue s = []"
  shows "fst (channel_method actor_refused cur meth chan True None kw s) =
           Raised (ChannelClosed ''NOT_FOUND - no exchange'')"
proof -
  let ?env = "\<lparr> method_name = meth, message = kw, err_queue = Some (length (err_queues s)),
                channel = chan \<rparr>"
  let ?s2 = "s\<lparr>err_queues := err_queues s @ [ [] ], connection_tasks_queue := [?env]\<rparr>"
  let ?e = "ChannelClosed ''NOT_FOUND - no exchange''"
  have "process_publish (PChannel 0) ?s2 \<lparr> script = [Some ?e], observed = [] \<rparr> =
          (Raised ?e, err_queue_put (err_queue ?env) (Some ?e) (?s2\<lparr>connection_tasks_queue := []\<rparr>),
           \<lparr> script = [Some ?e], observed = [] \<rparr>\<lparr>script := []\<rparr>)"
    by (rule process_publish_raises) simp_all
  then have items: "reply_items (length (err_queues s)) (actor_refused ?s2) = [Some ?e]"
    by (simp add: actor_refused_def err_queue_put_def reply_items_def)
  show ?thesis
    using assms items
    by (simp add: channel_method_def err_queue_get_def Let_def)
qed

text \<open>
  Claim C5 as stated fails: the timeout does not bound the wait for the actor. With a
  consumer thread that does not drain the queue, a blocking \<open>publish\<close> with the
  timeout 1/2 and no reply never returns, and the entry for \<open>c1\<close> is still in the
  table. With a broker that closes the channel on the publish, the call raises that error
  and the entry is still in the table as well.
\<close>

theorem C5_unsent_counterexample:
  "fst (blocking_publish id 1 ''u1'' (\<lambda>j. ''{}'') example_loads [] (JObj [])
          (Some (1 / 2)) (Some ''c1'') [] None
          (example_blocking, \<lparr> script = [], observed = [] \<rparr>)) = Blocked \<and>
   response_queues (fst (snd (blocking_publish id 1 ''u1'' (\<lambda>j. ''{}'') example_loads []
          (JObj []) (Some (1 / 2)) (Some ''c1'') [] None
          (example_blocking, \<lparr> script = [], observed = [] \<rparr>)))) ''c1'' = Some [] \<and>
   fst (blocking_publish actor_refused 1 ''u1'' (\<lambda>j. ''{}'') example_loads [] (JObj [])
          (Some (1 / 2)) (Some ''c1'') [] None
          (example_blocking, \<lparr> script = [], observed = [] \<rparr>)) =
     Raised (ChannelClosed ''NOT_FOUND - no exchange'') \<and>
   response_queues (fst (snd (blocking_publish actor_refused 1 ''u1'' (\<lambda>j. ''{}'') example_loads []
          (JObj []) (Some (1 / 2)) (Some ''c1'') [] None
          (example_blocking, \<lparr> script = [], observed = [] \<rparr>)))) ''c1'' = Some []"
proof -
  let ?h1 = "example_blocking\<lparr>response_queues := (response_queues example_blocking)(''c1'' \<mapsto> [])\<rparr>"
  have blocked: "fst (rr_publish id 1 (\<lambda>j. ''{}'') (JObj []) ''c1'' [] None ?h1) = Blocked"
    by (simp add: rr_publish_def publish_def channel_method_def err_queue_get_def reply_items_def
        example_blocking_def init_def Let_def)
  have "fst (channel_method actor_refused 1 meth chan True None kw (init (HostStr ''broker'') None)) =
          Raised (ChannelClosed ''NOT_FOUND - no exchange'')" for meth chan kw
    by (rule channel_method_refused) (simp_all add: init_def)
  then have refused: "fst (rr_publish actor_refused 1 (\<lambda>j. ''{}'') (JObj []) ''c1'' [] None ?h1) =
      Raised (ChannelClosed ''NOT_FOUND - no exchange'')"
    by (simp add: rr_publish_def publish_def Let_def split_beta example_blocking_def)
  have keep: "response_queues (snd (rr_publish others 1 (\<lambda>j. ''{}'') (JObj []) ''c1'' [] None ?h1)) ''c1'' =
      Some []" for others
    using rr_publish_response_queues [OF prod.collapse [symmetric], of others 1 "\<lambda>j. ''{}''" "JObj []"
        "''c1''" "[]" None ?h1]
    by simp
  show ?thesis
    using blocked refused keep [of id] keep [of actor_refused]
    by (simp add: blocking_publish_def Let_def split_beta)
qed

theorem C5_blocking_publish_sent_witness:
  "fst (rr_publish actor_drains 1 (\<lambda>j. ''{}'') (JObj []) ''c1'' [] None
     (example_blocking\<lparr>response_queues := (response_queues example_blocking)(''c1'' \<mapsto> [])\<rparr>)) =
     Returned () \<and>
   (0::rat) \<le> 1 / 2 \<and>
   list_all (\<lambda>d. correlation_id (properties d) \<noteq> Some ''c1'')
     [example_reply\<lparr>properties := \<lparr> reply_to = None, correlation_id = Some ''c2'' \<rparr>\<rparr>] \<and>
   fst (blocking_publish actor_drains 1 ''u1'' (\<lambda>j. ''{}'') example_loads
          [example_reply\<lparr>properties := \<lparr> reply_to = None, correlation_id = Some ''c2'' \<rparr>\<rparr>]
          (JObj []) (Some (1 / 2)) (Some ''c1'') [] None
          (example_blocking, \<lparr> script = [Some ConnectionClosed], observed = [] \<rparr>)) =
     Raised (RuntimeError ''No response received for task c1'') \<and>
   response_queues (fst (snd (blocking_publish actor_drains 1 ''u1'' (\<lambda>j. ''{}'') example_loads
          [example_reply\<lparr>properties := \<lparr> reply_to = None, correlation_id = Some ''c2'' \<rparr>\<rparr>]
          (JObj []) (Some (1 / 2)) (Some ''c1'') [] None
          (example_blocking, \<lparr> script = [Some ConnectionClosed], observed = [] \<rparr>)))) ''c1'' = None \<and>
   acks_succeed \<lparr> script = [], observed = [] \<rparr> \<and>
   fst (blocking_publish actor_drains 1 ''u1'' (\<lambda>j. ''{}'') example_loads [example_reply] (JObj [])
          (Some (1 / 2)) (Some ''c1'') [] None
          (example_blocking, \<lparr> script = [], observed = [] \<rparr>)) =
     Returned (JObj []) \<and>
   response_queues (fst (snd (blocking_publish actor_drains 1 ''u1'' (\<lambda>j. ''{}'') example_loads
          [example_reply] (JObj []) (Some (1 / 2)) (Some ''c1'') [] None
          (example_blocking, \<lparr> script = [], observed = [] \<rparr>)))) ''c1'' = None"
proof -
  have base: "fst (rr_publish actor_drains 1 (\<lambda>j. ''{}'') (JObj []) ''c1'' [] None
     (example_blocking\<lparr>response_queues := (response_queues example_blocking)(''c1'' \<mapsto> [])\<rparr>)) =
     Returned ()"
    using example_base_publish
      [of "example_blocking\<lparr>response_queues := (response_queues example_blocking)(''c1'' \<mapsto> [])\<rparr>"]
    by (simp add: example_blocking_def)
  have cid: "''c1'' = (case Some ''c1'' of None \<Rightarrow> ''u1'' | Some c \<Rightarrow> c)" by simp
  have t: "(0::rat) \<le> 1 / 2" by simp
  have acks: "acks_succeed \<lparr> script = [], observed = [] \<rparr>" by (simp add: acks_succeed_def)
  have other: "list_all (\<lambda>d. correlation_id (properties d) \<noteq> Some ''c1'')
     [example_reply\<lparr>properties := \<lparr> reply_to = None, correlation_id = Some ''c2'' \<rparr>\<rparr>]"
    by simp
  note none = C5_blocking_publish_sent [OF base cid t, where loads = example_loads
      and arriving = "[example_reply\<lparr>properties := \<lparr> reply_to = None, correlation_id = Some ''c2'' \<rparr>\<rparr>]"
      and b = "\<lparr> script = [Some ConnectionClosed], observed = [] \<rparr>"]
  note one = C5_blocking_publish_sent [OF base cid t, where loads = example_loads
      and arriving = "[example_reply]" and b = "\<lparr> script = [], observed = [] \<rparr>"]
  show ?thesis
    using base acks other none one
    by (simp add: replies_Cons example_reply_def example_loads_def)
qed

lemma callback_process_callbacks:
  "callbacks (fst (snd (callback_process loads d (h, b)))) = callbacks h"
  by (auto simp: callback_process_def Let_def split: option.splits prod.splits)

lemma callback_process_invokes:
  assumes "callbacks h cid = Some cb" and "correlation_id (properties d) = Some cid"
    and "loads (body d) = Some resp" and "acks_succeed b"
  shows "invoked (fst (snd (callback_process loads d (h, b)))) = invoked h @ [(cb, resp)]"
proof -
  obtain b1 where inv: "invoke b (dchannel d) ''basic_ack'' [''delivery_tag'' \<mapsto> PInt (delivery_tag d)] = (None, b1)"
    using invoke_ok [OF assms(4), of "dchannel d" "''basic_ack''" "[''delivery_tag'' \<mapsto> PInt (delivery_tag d)]"]
    by (cases "invoke b (dchannel d) ''basic_ack'' [''delivery_tag'' \<mapsto> PInt (delivery_tag d)]") auto
  show ?thesis
    using assms(1-3) by (simp add: callback_process_def inv)
qed

lemma callback_publish_registers:
  "callbacks (snd (callback_publish others cur fresh dumps msg (Some cb) corr rk ex h))
     (case corr of None \<Rightarrow> fresh | Some c \<Rightarrow> c) = Some cb \<and>
   invoked (snd (callback_publish others cur fresh dumps msg (Some cb) corr rk ex h)) = invoked h"
  by (simp add: callback_publish_def Let_def rr_publish_callbacks wait_for_response_def)

text \<open>
  Claim C4, as the code has it. In the blocking handler, when the envelope was sent and the
  call comes back (it returns the response or raises for the timeout), the entry that
  \<open>publish\<close> made for the correlation id is gone. In the callback handler
  \<open>publish\<close> with a callback makes an entry, and \<open>process\<close> never changes the
  table: when a response with a registered correlation id arrives, the callback is called
  with it and its entry stays. There is no timeout in the callback handler.
\<close>

theorem C4_correlation_entries:
  "(fst (rr_publish others cur dumps msg cid routing_key expiration
           (h\<lparr>response_queues := (response_queues h)(cid \<mapsto> [])\<rparr>)) = Returned () \<and>
    cid = (case corr of None \<Rightarrow> fresh | Some c \<Rightarrow> c) \<and>
    fst (blocking_publish others cur fresh dumps loads arriving msg timeout corr
           routing_key expiration (h, b)) \<noteq> Blocked \<longrightarrow>
      response_queues (fst (snd (blocking_publish others cur fresh dumps loads arriving msg
           timeout corr routing_key expiration (h, b)))) cid = None) \<and>
   callbacks (snd (callback_publish others cur fresh dumps msg (Some cb) corr routing_key expiration ch))
     (case corr of None \<Rightarrow> fresh | Some c \<Rightarrow> c) = Some cb \<and>
   callbacks (fst (snd (callback_process loads d (ch, b)))) = callbacks ch \<and>
   (callbacks ch cid' = Some cb' \<and> correlation_id (properties d) = Some cid' \<and>
    loads (body d) = Some resp \<and> acks_succeed b \<longrightarrow>
      invoked (fst (snd (callback_process loads d (ch, b)))) = invoked ch @ [(cb', resp)] \<and>
      callbacks (fst (snd (callback_process loads d (ch, b)))) cid' = Some cb')"
proof (intro conjI impI)
  assume "fst (rr_publish others cur dumps msg cid routing_key expiration
           (h\<lparr>response_queues := (response_queues h)(cid \<mapsto> [])\<rparr>)) = Returned () \<and>
    cid = (case corr of None \<Rightarrow> fresh | Some c \<Rightarrow> c) \<and>
    fst (blocking_publish others cur fresh dumps loads arriving msg timeout corr
           routing_key expiration (h, b)) \<noteq> Blocked"
  then have a1: "fst (rr_publish others cur dumps msg cid routing_key expiration
           (h\<lparr>response_queues := (response_queues h)(cid \<mapsto> [])\<rparr>)) = Returned ()"
    and a2: "cid = (case corr of None \<Rightarrow> fresh | Some c \<Rightarrow> c)"
    and a3: "fst (blocking_publish others cur fresh dumps loads arriving msg timeout corr
           routing_key expiration (h, b)) \<noteq> Blocked"
    by blast+
  show "response_queues (fst (snd (blocking_publish others cur fresh dumps loads arriving msg
           timeout corr routing_key expiration (h, b)))) cid = None"
    by (rule blocking_publish_removes [OF a1 a2 a3])
next
  show "callbacks (snd (callback_publish others cur fresh dumps msg (Some cb) corr routing_key expiration ch))
     (case corr of None \<Rightarrow> fresh | Some c \<Rightarrow> c) = Some cb"
    by (simp add: callback_publish_registers)
next
  show "callbacks (fst (snd (callback_process loads d (ch, b)))) = callbacks ch"
    by (rule callback_process_callbacks)
next
  assume a: "callbacks ch cid' = Some cb' \<and> correlation_id (properties d) = Some cid' \<and>
    loads (body d) = Some resp \<and> acks_succeed b"
  then show "invoked (fst (snd (callback_process loads d (ch, b)))) = invoked ch @ [(cb', resp)]"
    by (intro callback_process_invokes) simp_all
  from a show "callbacks (fst (snd (callback_process loads d (ch, b)))) cid' = Some cb'"
    by (simp add: callback_process_callbacks)
qed

text \<open>
  Claim C4 as stated fails for the callback handler: after \<open>publish\<close> with the callback
  \<open>9\<close> and the correlation id \<open>c1\<close>, and after the reply was processed and the
  callback called with the response, the table still has the entry for \<open>c1\<close>.
\<close>

theorem C4_callback_entry_counterexample:
  "callbacks (snd (callback_publish actor_drains 1 ''u1'' (\<lambda>j. ''{}'') (JObj []) (Some 9)
       (Some ''c1'') [] None example_callback)) ''c1'' = Some 9 \<and>
   invoked (fst (snd (callback_process example_loads example_reply
     (snd (callback_publish actor_drains 1 ''u1'' (\<lambda>j. ''{}'') (JObj []) (Some 9)
        (Some ''c1'') [] None example_callback),
      \<lparr> script = [], observed = [] \<rparr>)))) = [(9, JObj [])] \<and>
   callbacks (fst (snd (callback_process example_loads example_reply
     (snd (callback_publish actor_drains 1 ''u1'' (\<lambda>j. ''{}'') (JObj []) (Some 9)
        (Some ''c1'') [] None example_callback),
      \<lparr> script = [], observed = [] \<rparr>)))) ''c1'' \<noteq> None"
proof -
  let ?h1 = "snd (callback_publish actor_drains 1 ''u1'' (\<lambda>j. ''{}'') (JObj []) (Some 9)
       (Some ''c1'') [] None example_callback)"
  have reg: "callbacks ?h1 ''c1'' = Some 9" "invoked ?h1 = []"
    using callback_publish_registers [where others = actor_drains and cur = 1 and fresh = "''u1''"
        and dumps = "\<lambda>j. ''{}''" and msg = "JObj []" and cb = 9 and corr = "Some ''c1''"
        and rk = "[]" and ex = None and h = example_callback]
    by (simp_all add: example_callback_def)
  have acks: "acks_succeed \<lparr> script = [], observed = [] \<rparr>" by (simp add: acks_succeed_def)
  have inv: "invoked (fst (snd (callback_process example_loads example_reply
                (?h1, \<lparr> script = [], observed = [] \<rparr>)))) = invoked ?h1 @ [(9, JObj [])]"
    by (rule callback_process_invokes [OF reg(1) _ _ acks])
       (simp_all add: example_reply_def example_loads_def)
  show ?thesis
    using reg inv by (simp add: callback_process_callbacks)
qed

theorem C4_correlation_entries_witness:
  "fst (rr_publish actor_drains 1 (\<lambda>j. ''{}'') (JObj []) ''c1'' [] None
     (example_blocking\<lparr>response_queues := (response_queues example_blocking)(''c1'' \<mapsto> [])\<rparr>)) =
     Returned () \<and>
   fst (blocking_publish actor_drains 1 ''u1'' (\<lambda>j. ''{}'') example_loads [example_reply] (JObj [])
          None (Some ''c1'') [] None
          (example_blocking, \<lparr> script = [], observed = [] \<rparr>)) \<noteq> Blocked \<and>
   response_queues (fst (snd (blocking_publish actor_drains 1 ''u1'' (\<lambda>j. ''{}'') example_loads
          [example_reply] (JObj []) None (Some ''c1'') [] None
          (example_blocking, \<lparr> script = [], observed = [] \<rparr>)))) ''c1'' = None \<and>
   callbacks (wait_for_response ''c1'' 9 example_callback) ''c1'' = Some 9 \<and>
   correlation_id (properties example_reply) = Some ''c1'' \<and>
   example_loads (body example_reply) = Some (JObj []) \<and>
   acks_succeed \<lparr> script = [], observed = [] \<rparr> \<and>
   invoked (fst (snd (callback_process example_loads example_reply
     (wait_for_response ''c1'' 9 example_callback, \<lparr> script = [], observed = [] \<rparr>)))) =
     [(9, JObj [])] \<and>
   callbacks (fst (snd (callback_process example_loads example_reply
     (wait_for_response ''c1'' 9 example_callback, \<lparr> script = [], observed = [] \<rparr>)))) ''c1'' =
     Some 9"
proof -
  have base: "fst (rr_publish actor_drains 1 (\<lambda>j. ''{}'') (JObj []) ''c1'' [] None
     (example_blocking\<lparr>response_queues := (response_queues example_blocking)(''c1'' \<mapsto> [])\<rparr>)) =
     Returned ()"
    using example_base_publish
      [of "example_blocking\<lparr>response_queues := (response_queues example_blocking)(''c1'' \<mapsto> [])\<rparr>"]
    by (simp add: example_blocking_def)
  have acks: "acks_succeed \<lparr> script = [], observed = [] \<rparr>" by (simp add: acks_succeed_def)
  have got: "fst (blocking_publish actor_drains 1 ''u1'' (\<lambda>j. ''{}'') example_loads [example_reply]
          (JObj []) None (Some ''c1'') [] None
          (example_blocking, \<lparr> script = [], observed = [] \<rparr>)) \<noteq> Blocked"
    using blocking_publish_result [OF base _ _ acks, where corr = "Some ''c1''" and fresh = "''u1''"
        and timeout = None and loads = example_loads and arriving = "[example_reply]"]
    by (simp add: replies_Cons example_reply_def example_loads_def)
  show ?thesis
    using C4_correlation_entries [where others = actor_drains and cur = 1 and dumps = "\<lambda>j. ''{}''"
        and msg = "JObj []" and cid = "''c1''" and routing_key = "[]" and expiration = None
        and h = example_blocking and corr = "Some ''c1''" and fresh = "''u1''"
        and loads = example_loads and arriving = "[example_reply]" and timeout = None
        and b = "\<lparr> script = [], observed = [] \<rparr>" and cb = 9
        and ch = "wait_for_response ''c1'' 9 example_callback" and d = example_reply
        and cid' = "''c1''" and cb' = 9 and resp = "JObj []"]
      base acks got
    by (simp add: wait_for_response_def example_callback_def example_reply_def example_loads_def)
qed

end
